theory Spec2Isabelle
  imports
    Main
    "HOL-Library.Word"
    "HOL-Library.Char_ord"
    "HOL-Library.List_Lexorder"
    "HOL-Library.Product_Lexorder"
begin

unbundle bit_operations_syntax

section \<open>Python strings\<close>

text \<open>
  A Python \<open>str\<close> is modelled as the list of its code points, a \<open>string\<close>. The model
  covers the code points below 256; \<open>strip\<close>, \<open>json.dumps\<close> and \<open>encode\<close> below follow
  Python on exactly those.
\<close>

definition quote :: char where
  "quote = CHR 0x22"

definition backslash :: char where
  "backslash = CHR 0x5C"

text \<open>\<open>str.isspace\<close> on one character.\<close>

definition is_space :: "char \<Rightarrow> bool" where
  "is_space c = ((of_char c :: nat) \<in> {9, 10, 11, 12, 13, 28, 29, 30, 31, 32, 133, 160})"

definition strip :: "string \<Rightarrow> string" where
  "strip s = rev (dropWhile is_space (rev (dropWhile is_space s)))"

text \<open>\<open>sep.join(xs)\<close>.\<close>

fun join :: "string \<Rightarrow> string list \<Rightarrow> string" where
  "join sep [] = []"
| "join sep [x] = x"
| "join sep (x # y # ys) = x @ sep @ join sep (y # ys)"

text \<open>The format spec \<open>{s:n}\<close> on a \<open>str\<close>: left-justified, padded with spaces.\<close>

definition ljust :: "nat \<Rightarrow> string \<Rightarrow> string" where
  "ljust n s = s @ replicate (n - length s) CHR '' ''"

definition digit_char :: "nat \<Rightarrow> char" where
  "digit_char n = (''0123456789'' ! n)"

function str_nat :: "nat \<Rightarrow> string" where
  "str_nat n = (if n < 10 then [digit_char n] else str_nat (n div 10) @ [digit_char (n mod 10)])"
  by pat_completeness auto
termination
  by (relation "measure id") auto

declare str_nat.simps [simp del]

text \<open>\<open>str(i)\<close> on an \<open>int\<close>, as an f-string formats it.\<close>

definition str_int :: "int \<Rightarrow> string" where
  "str_int i = (if i < 0 then CHR ''-'' # str_nat (nat (- i)) else str_nat (nat i))"

definition hex_digit :: "nat \<Rightarrow> char" where
  "hex_digit n = (''0123456789abcdef'' ! n)"

text \<open>\<open>json.dumps\<close> on a \<open>str\<close> (with the default \<open>ensure_ascii\<close>).\<close>

definition json_escape :: "char \<Rightarrow> string" where
  "json_escape c =
     (let n = (of_char c :: nat) in
      if c = quote then [backslash, quote]
      else if c = backslash then [backslash, backslash]
      else if n = 10 then [backslash, CHR ''n'']
      else if n = 13 then [backslash, CHR ''r'']
      else if n = 9 then [backslash, CHR ''t'']
      else if n = 8 then [backslash, CHR ''b'']
      else if n = 12 then [backslash, CHR ''f'']
      else if n < 32 \<or> 127 \<le> n then
        [backslash, CHR ''u'', CHR ''0'', CHR ''0'', hex_digit (n div 16), hex_digit (n mod 16)]
      else [c])"

definition json_dumps_str :: "string \<Rightarrow> string" where
  "json_dumps_str s = [quote] @ concat (map json_escape s) @ [quote]"

text \<open>\<open>str.encode()\<close>: UTF-8.\<close>

definition utf8 :: "char \<Rightarrow> 8 word list" where
  "utf8 c =
     (let n = (of_char c :: nat) in
      if n < 128 then [of_nat n] else [of_nat (192 + n div 64), of_nat (128 + n mod 64)])"

definition encode :: "string \<Rightarrow> 8 word list" where
  "encode s = concat (map utf8 s)"

section \<open>\<open>hashlib.sha1\<close>\<close>

text \<open>
  SHA-1 as FIPS 180 defines it, on a list of bytes: padding to a multiple of 64 bytes,
  an 80-word message schedule per block, 80 rounds on five 32-bit words.
\<close>

type_synonym u32 = "32 word"

definition rotl32 :: "nat \<Rightarrow> u32 \<Rightarrow> u32" where
  "rotl32 n x = push_bit n x OR drop_bit (32 - n) x"

definition be64 :: "64 word \<Rightarrow> 8 word list" where
  "be64 n = map (\<lambda>i. ucast (drop_bit (8 * i) n)) [7, 6, 5, 4, 3, 2, 1, 0]"

definition sha1_pad :: "8 word list \<Rightarrow> 8 word list" where
  "sha1_pad m =
     m @ [0x80] @ replicate ((119 - length m mod 64) mod 64) 0 @ be64 (of_nat (8 * length m))"

fun be32 :: "8 word list \<Rightarrow> u32" where
  "be32 [] = 0"
| "be32 (b # bs) = push_bit (8 * length bs) (ucast b) OR be32 bs"

fun sha1_words :: "nat \<Rightarrow> 8 word list \<Rightarrow> u32 list" where
  "sha1_words 0 bs = []"
| "sha1_words (Suc n) bs = be32 (take 4 bs) # sha1_words n (drop 4 bs)"

fun sha1_schedule :: "nat \<Rightarrow> u32 list \<Rightarrow> u32 list" where
  "sha1_schedule 0 w = w"
| "sha1_schedule (Suc k) w =
     (let n = length w in
      sha1_schedule k
        (w @ [rotl32 1 (w ! (n - 3) XOR w ! (n - 8) XOR w ! (n - 14) XOR w ! (n - 16))]))"

type_synonym sha1_state = "u32 \<times> u32 \<times> u32 \<times> u32 \<times> u32"

definition sha1_f :: "nat \<Rightarrow> u32 \<Rightarrow> u32 \<Rightarrow> u32 \<Rightarrow> u32" where
  "sha1_f t b c d =
     (if t < 20 then (b AND c) OR (NOT b AND d)
      else if t < 40 then b XOR c XOR d
      else if t < 60 then (b AND c) OR (b AND d) OR (c AND d)
      else b XOR c XOR d)"

definition sha1_k :: "nat \<Rightarrow> u32" where
  "sha1_k t =
     (if t < 20 then 0x5A827999 else if t < 40 then 0x6ED9EBA1
      else if t < 60 then 0x8F1BBCDC else 0xCA62C1D6)"

fun sha1_round :: "u32 list \<Rightarrow> nat \<Rightarrow> sha1_state \<Rightarrow> sha1_state" where
  "sha1_round w t (a, b, c, d, e) =
     (rotl32 5 a + sha1_f t b c d + e + sha1_k t + w ! t, a, rotl32 30 b, c, d)"

fun sha1_block :: "sha1_state \<Rightarrow> 8 word list \<Rightarrow> sha1_state" where
  "sha1_block (h0, h1, h2, h3, h4) blk =
     (let w = sha1_schedule 64 (sha1_words 16 blk) in
      case fold (sha1_round w) [0..<80] (h0, h1, h2, h3, h4) of
        (a, b, c, d, e) \<Rightarrow> (h0 + a, h1 + b, h2 + c, h3 + d, h4 + e))"

fun sha1_blocks :: "nat \<Rightarrow> sha1_state \<Rightarrow> 8 word list \<Rightarrow> sha1_state" where
  "sha1_blocks 0 h bs = h"
| "sha1_blocks (Suc n) h bs = sha1_blocks n (sha1_block h (take 64 bs)) (drop 64 bs)"

definition sha1 :: "8 word list \<Rightarrow> sha1_state" where
  "sha1 m =
     (let p = sha1_pad m in
      sha1_blocks (length p div 64)
        (0x67452301, 0xEFCDAB89, 0x98BADCFE, 0x10325476, 0xC3D2E1F0) p)"

definition hex32 :: "u32 \<Rightarrow> string" where
  "hex32 w = map (\<lambda>i. hex_digit (unat (drop_bit (4 * i) w AND 0xF))) [7, 6, 5, 4, 3, 2, 1, 0]"

text \<open>\<open>hashlib.sha1(bs).hexdigest()\<close>: forty lowercase hexadecimal digits.\<close>

definition sha1_hexdigest :: "8 word list \<Rightarrow> string" where
  "sha1_hexdigest bs =
     (case sha1 bs of
        (h0, h1, h2, h3, h4) \<Rightarrow> hex32 h0 @ hex32 h1 @ hex32 h2 @ hex32 h3 @ hex32 h4)"

section \<open>The process and its environment\<close>

text \<open>
  What the script exchanges with the outside: HTTP requests (the \<open>requests\<close> library),
  lines printed to standard output, and the process environment \<open>os.environ\<close>.
\<close>

type_synonym environ = "string \<rightharpoonup> string"

record request =
  rq_method :: string
  rq_url :: string
  rq_headers :: "(string \<times> string) list"
  rq_data :: "string option"
  rq_timeout :: "nat option"

text \<open>
  A DNS record as the provider returns it for \<open>GET /domain/zone/{domain}/record/{id}\<close>:
  a JSON object with the keys \<open>id\<close>, \<open>subDomain\<close>, \<open>fieldType\<close>, \<open>target\<close> and
  \<open>ttl\<close>.
\<close>

record dns_record =
  rec_id :: int
  subDomain :: string
  fieldType :: string
  rec_target :: string
  rec_ttl :: int

text \<open>
  A \<open>requests.Response\<close>. \<open>json_ids\<close> is the value of \<open>.json()\<close> when the body is the JSON
  array of record ids that a listing returns, \<open>json_record\<close> when it is the JSON object
  of one record; each is \<open>None\<close> when \<open>.json()\<close> raises. The provider's replies have
  these two shapes; bodies that decode to other JSON values are outside the model.
\<close>

record response =
  status_code :: int
  resp_text :: string
  json_ids :: "int list option"
  json_record :: "dns_record option"

datatype exn =
    RequestException
  | JSONDecodeError
  | ValueError string
  | OSError
  | GaiError
  | UnicodeError
  | SystemExit int

datatype 'a result = Return 'a | Raise exn

text \<open>
  The state threaded through the script: the state of the network (servers included),
  the log of the HTTP exchanges made so far (each request with the response, or \<open>None\<close>
  when the request raised), and the lines printed so far.
\<close>

record 'w world =
  server :: 'w
  calls :: "(request \<times> response option) list"
  stdout :: "string list"

type_synonym 'w network = "'w \<Rightarrow> request \<Rightarrow> response option \<times> 'w"

type_synonym ('w, 'a) prog = "'w world \<Rightarrow> 'a result \<times> 'w world"

definition return :: "'a \<Rightarrow> ('w, 'a) prog" where
  "return a s = (Return a, s)"

definition raise :: "exn \<Rightarrow> ('w, 'a) prog" where
  "raise e s = (Raise e, s)"

definition bind :: "('w, 'a) prog \<Rightarrow> ('a \<Rightarrow> ('w, 'b) prog) \<Rightarrow> ('w, 'b) prog" where
  "bind m f s = (case m s of (Return a, s') \<Rightarrow> f a s' | (Raise e, s') \<Rightarrow> (Raise e, s'))"

definition print :: "string \<Rightarrow> ('w, unit) prog" where
  "print line s = (Return (), s\<lparr>stdout := stdout s @ [line]\<rparr>)"

text \<open>One call of \<open>requests.get/post/put/delete\<close>: it returns a response or raises.\<close>

definition http :: "'w network \<Rightarrow> request \<Rightarrow> ('w, response) prog" where
  "http net q s =
     (case net (server s) q of
        (ro, w) \<Rightarrow>
          (case ro of None \<Rightarrow> Raise RequestException | Some r \<Rightarrow> Return r,
           s\<lparr>server := w, calls := calls s @ [(q, ro)]\<rparr>))"

text \<open>Python's truth value of a \<open>str\<close> or \<open>None\<close>.\<close>

fun truthy :: "string option \<Rightarrow> bool" where
  "truthy None = False"
| "truthy (Some s) = (s \<noteq> [])"

section \<open>The script\<close>

subsection \<open>Loading \<open>.env\<close>\<close>

text \<open>
  \<open>os.environ.setdefault(key, value)\<close>: nothing happens when the key is set already;
  otherwise the variable is set, which raises on a NUL character and on an empty name.
\<close>

definition setdefault :: "environ \<Rightarrow> string \<Rightarrow> string \<Rightarrow> environ result" where
  "setdefault env key val =
     (if env key \<noteq> None then Return env
      else if CHR 0x00 \<in> set key \<or> CHR 0x00 \<in> set val then
        Raise (ValueError ''embedded null byte'')
      else if key = [] then Raise OSError
      else Return (env(key \<mapsto> val)))"

text \<open>
  One line of the file: \<open>None\<close> when the line is skipped, otherwise the key and the value
  that \<open>setdefault\<close> receives.
\<close>

definition parse_line :: "string \<Rightarrow> (string \<times> string) option" where
  "parse_line raw =
     (let line = strip raw in
      if line \<noteq> [] \<and> hd line \<noteq> CHR ''#'' \<and> CHR ''='' \<in> set line then
        Some (strip (takeWhile (\<lambda>c. c \<noteq> CHR ''='') line),
              strip (tl (dropWhile (\<lambda>c. c \<noteq> CHR ''='') line)))
      else None)"

fun load_lines :: "string list \<Rightarrow> environ \<Rightarrow> environ result" where
  "load_lines [] env = Return env"
| "load_lines (raw # rest) env =
     (case parse_line raw of
        None \<Rightarrow> load_lines rest env
      | Some (key, val) \<Rightarrow>
          (case setdefault env key val of
             Raise e \<Rightarrow> Raise e
           | Return env' \<Rightarrow> load_lines rest env'))"

text \<open>The file is \<open>None\<close> when \<open>.env\<close> does not exist, otherwise its lines.\<close>

definition load_env :: "string list option \<Rightarrow> environ \<Rightarrow> environ result" where
  "load_env dotenv env = (case dotenv of None \<Rightarrow> Return env | Some ls \<Rightarrow> load_lines ls env)"

definition OVH_ENDPOINT :: string where
  "OVH_ENDPOINT = ''https://eu.api.ovh.com/1.0''"

definition DEFAULT_DOMAIN :: "environ \<Rightarrow> string option" where
  "DEFAULT_DOMAIN env = env ''DOMAIN''"

subsection \<open>\<open>get_server_ip\<close>\<close>

definition echo_request :: "string \<Rightarrow> request" where
  "echo_request u =
     \<lparr>rq_method = ''GET'', rq_url = u, rq_headers = [], rq_data = None, rq_timeout = Some 5\<rparr>"

definition get_server_ip :: "'w network \<Rightarrow> ('w, string option) prog" where
  "get_server_ip net s =
     (case http net (echo_request ''https://api.ipify.org'') s of
        (Return r, s1) \<Rightarrow> (Return (Some (strip (resp_text r))), s1)
      | (Raise e1, s1) \<Rightarrow>
          (case http net (echo_request ''https://ifconfig.me'') s1 of
             (Return r, s2) \<Rightarrow> (Return (Some (strip (resp_text r))), s2)
           | (Raise e2, s2) \<Rightarrow> (Return None, s2)))"

subsection \<open>\<open>ovh_call\<close>\<close>

definition to_sign ::
  "string \<Rightarrow> string \<Rightarrow> string \<Rightarrow> string \<Rightarrow> string \<Rightarrow> string \<Rightarrow> string" where
  "to_sign app_secret consumer_key method path body server_time =
     app_secret @ ''+'' @ consumer_key @ ''+'' @ method @ ''+'' @ OVH_ENDPOINT @ path
       @ ''+'' @ body @ ''+'' @ server_time"

definition signature ::
  "string \<Rightarrow> string \<Rightarrow> string \<Rightarrow> string \<Rightarrow> string \<Rightarrow> string \<Rightarrow> string" where
  "signature app_secret consumer_key method path body server_time =
     ''$1$'' @ sha1_hexdigest
       (encode (to_sign app_secret consumer_key method path body server_time))"

definition time_request :: request where
  "time_request =
     \<lparr>rq_method = ''GET'', rq_url = OVH_ENDPOINT @ ''/auth/time'', rq_headers = [],
      rq_data = None, rq_timeout = None\<rparr>"

definition missing_credentials :: "('w, response) prog" where
  "missing_credentials =
     bind (print ''Error: OVH API credentials not found in .env'') (\<lambda>_.
     bind (print
       ''Required: OVH_APPLICATION_KEY, OVH_APPLICATION_SECRET, OVH_CONSUMER_KEY'') (\<lambda>_.
     raise (SystemExit 1)))"

definition api_request ::
  "string \<Rightarrow> string \<Rightarrow> (string \<times> string) list \<Rightarrow> string option \<Rightarrow> request" where
  "api_request method url hdrs dat =
     \<lparr>rq_method = method, rq_url = url, rq_headers = hdrs, rq_data = dat, rq_timeout = None\<rparr>"

definition ovh_headers ::
  "string \<Rightarrow> string \<Rightarrow> string \<Rightarrow> string \<Rightarrow> string \<Rightarrow> string \<Rightarrow> string
     \<Rightarrow> (string \<times> string) list" where
  "ovh_headers app_key app_secret consumer_key method path body server_time =
     [(''X-Ovh-Application'', app_key),
      (''X-Ovh-Consumer'', consumer_key),
      (''X-Ovh-Timestamp'', server_time),
      (''X-Ovh-Signature'', signature app_secret consumer_key method path body server_time),
      (''Content-Type'', ''application/json'')]"

definition ovh_call ::
  "'w network \<Rightarrow> environ \<Rightarrow> string \<Rightarrow> string \<Rightarrow> string \<Rightarrow> ('w, response) prog" where
  "ovh_call net env method path body =
     (case (env ''OVH_APPLICATION_KEY'', env ''OVH_APPLICATION_SECRET'',
            env ''OVH_CONSUMER_KEY'') of
        (Some app_key, Some app_secret, Some consumer_key) \<Rightarrow>
          if app_key = [] \<or> app_secret = [] \<or> consumer_key = [] then missing_credentials
          else
            bind (http net time_request) (\<lambda>tr.
              let server_time = resp_text tr;
                  hdrs = ovh_headers app_key app_secret consumer_key method path body
                           server_time;
                  url = OVH_ENDPOINT @ path
              in
                if method = ''GET'' then http net (api_request ''GET'' url hdrs None)
                else if method = ''POST'' then
                  http net (api_request ''POST'' url hdrs (Some body))
                else if method = ''PUT'' then
                  http net (api_request ''PUT'' url hdrs (Some body))
                else if method = ''DELETE'' then
                  http net (api_request ''DELETE'' url hdrs None)
                else raise (ValueError (''Unknown method: '' @ method)))
      | _ \<Rightarrow> missing_credentials)"

text \<open>The request that \<open>ovh_call\<close> sends after the time request, for one of its four methods.\<close>

definition signed_request ::
  "string \<Rightarrow> string \<Rightarrow> string \<Rightarrow> string \<Rightarrow> string \<Rightarrow> string \<Rightarrow> string \<Rightarrow> request" where
  "signed_request app_key app_secret consumer_key method path body server_time =
     api_request method (OVH_ENDPOINT @ path)
       (ovh_headers app_key app_secret consumer_key method path body server_time)
       (if method = ''POST'' \<or> method = ''PUT'' then Some body else None)"

subsection \<open>\<open>list_records\<close>\<close>

definition list_path :: "string \<Rightarrow> string option \<Rightarrow> string option \<Rightarrow> string" where
  "list_path domain record_type subdomain =
     (let path = ''/domain/zone/'' @ domain @ ''/record'';
          params = (if truthy record_type then [''fieldType='' @ the record_type] else [])
                 @ (if truthy subdomain then [''subDomain='' @ the subdomain] else [])
      in if params \<noteq> [] then path @ ''?'' @ join ''&'' params else path)"

definition record_path :: "string \<Rightarrow> int \<Rightarrow> string" where
  "record_path domain record_id = ''/domain/zone/'' @ domain @ ''/record/'' @ str_int record_id"

fun fetch_records ::
  "'w network \<Rightarrow> environ \<Rightarrow> string \<Rightarrow> int list \<Rightarrow> dns_record list
     \<Rightarrow> ('w, dns_record list) prog" where
  "fetch_records net env domain [] records = return records"
| "fetch_records net env domain (record_id # ids) records =
     bind (ovh_call net env ''GET'' (record_path domain record_id) []) (\<lambda>r.
       if status_code r = 200 then
         (case json_record r of
            None \<Rightarrow> raise JSONDecodeError
          | Some rec \<Rightarrow> fetch_records net env domain ids (records @ [rec]))
       else fetch_records net env domain ids records)"

definition list_records ::
  "'w network \<Rightarrow> environ \<Rightarrow> string \<Rightarrow> string option \<Rightarrow> string option
     \<Rightarrow> ('w, dns_record list) prog" where
  "list_records net env domain record_type subdomain =
     bind (ovh_call net env ''GET'' (list_path domain record_type subdomain) []) (\<lambda>response.
       if status_code response \<noteq> 200 then
         bind (print (''Error listing records: '' @ resp_text response)) (\<lambda>_. return [])
       else
         (case json_ids response of
            None \<Rightarrow> raise JSONDecodeError
          | Some record_ids \<Rightarrow> fetch_records net env domain record_ids []))"

subsection \<open>\<open>refresh_zone\<close>, \<open>delete_record\<close>, \<open>add_record\<close>\<close>

definition refresh_path :: "string \<Rightarrow> string" where
  "refresh_path domain = ''/domain/zone/'' @ domain @ ''/refresh''"

definition refresh_zone :: "'w network \<Rightarrow> environ \<Rightarrow> string \<Rightarrow> ('w, bool) prog" where
  "refresh_zone net env domain =
     bind (ovh_call net env ''POST'' (refresh_path domain) []) (\<lambda>response.
       if status_code response \<in> {200, 204} then
         bind (print (''Zone '' @ domain @ '' refreshed'')) (\<lambda>_. return True)
       else
         bind (print (''Warning: Could not refresh zone: '' @ resp_text response)) (\<lambda>_.
           return False))"

fun delete_loop ::
  "'w network \<Rightarrow> environ \<Rightarrow> string \<Rightarrow> string \<Rightarrow> dns_record list \<Rightarrow> bool
     \<Rightarrow> ('w, bool) prog" where
  "delete_loop net env domain subdomain [] deleted = return deleted"
| "delete_loop net env domain subdomain (rec # recs) deleted =
     (if subDomain rec = subdomain then
        bind (ovh_call net env ''DELETE'' (record_path domain (rec_id rec)) []) (\<lambda>response.
          if status_code response \<in> {200, 204} then
            bind (print (''Deleted record: '' @ subdomain @ ''.'' @ domain @ '' (ID: ''
                          @ str_int (rec_id rec) @ '')'')) (\<lambda>_.
              delete_loop net env domain subdomain recs True)
          else
            bind (print (''Error deleting record '' @ str_int (rec_id rec) @ '': ''
                          @ resp_text response)) (\<lambda>_.
              delete_loop net env domain subdomain recs deleted))
      else delete_loop net env domain subdomain recs deleted)"

definition not_found_line :: "string \<Rightarrow> string \<Rightarrow> string \<Rightarrow> string" where
  "not_found_line record_type subdomain domain =
     ''No '' @ record_type @ '' record found for '' @ subdomain @ ''.'' @ domain"

definition delete_record ::
  "'w network \<Rightarrow> environ \<Rightarrow> string \<Rightarrow> string \<Rightarrow> string \<Rightarrow> ('w, bool) prog" where
  "delete_record net env domain subdomain record_type =
     bind (list_records net env domain (Some record_type) (Some subdomain)) (\<lambda>records.
     bind (delete_loop net env domain subdomain records False) (\<lambda>deleted.
     bind (if deleted then bind (refresh_zone net env domain) (\<lambda>_. return ())
           else if records = [] then print (not_found_line record_type subdomain domain)
           else return ()) (\<lambda>_.
     return deleted)))"

text \<open>
  The loop of \<open>add_record\<close> over the existing records. Its value is \<open>True\<close> when the loop
  left the function through \<open>return True\<close>, \<open>False\<close> when it ran to its end.
\<close>

fun add_loop ::
  "'w network \<Rightarrow> environ \<Rightarrow> string \<Rightarrow> string \<Rightarrow> string \<Rightarrow> string \<Rightarrow> dns_record list
     \<Rightarrow> ('w, bool) prog" where
  "add_loop net env domain subdomain target record_type [] = return False"
| "add_loop net env domain subdomain target record_type (rec # recs) =
     (if subDomain rec = subdomain \<and> fieldType rec = record_type then
        if rec_target rec = target then
          bind (print (''Record already exists: '' @ subdomain @ ''.'' @ domain @ '' -> ''
                        @ target)) (\<lambda>_.
            return True)
        else
          bind (print (''Record exists with different target: '' @ rec_target rec)) (\<lambda>_.
          bind (print (''Updating to: '' @ target)) (\<lambda>_.
          bind (delete_record net env domain subdomain record_type) (\<lambda>_.
            add_loop net env domain subdomain target record_type recs)))
      else add_loop net env domain subdomain target record_type recs)"

text \<open>\<open>json.dumps\<close> of the dictionary that \<open>add_record\<close> posts.\<close>

definition record_body :: "string \<Rightarrow> string \<Rightarrow> string \<Rightarrow> int \<Rightarrow> string" where
  "record_body record_type subdomain target ttl =
     ''{'' @ json_dumps_str ''fieldType'' @ '': '' @ json_dumps_str record_type
       @ '', '' @ json_dumps_str ''subDomain'' @ '': '' @ json_dumps_str subdomain
       @ '', '' @ json_dumps_str ''target'' @ '': '' @ json_dumps_str target
       @ '', '' @ json_dumps_str ''ttl'' @ '': '' @ str_int ttl @ ''}''"

definition create_path :: "string \<Rightarrow> string" where
  "create_path domain = ''/domain/zone/'' @ domain @ ''/record''"

definition add_record ::
  "'w network \<Rightarrow> environ \<Rightarrow> string \<Rightarrow> string \<Rightarrow> string \<Rightarrow> string \<Rightarrow> int
     \<Rightarrow> ('w, bool) prog" where
  "add_record net env domain subdomain target record_type ttl =
     bind (list_records net env domain (Some record_type) (Some subdomain)) (\<lambda>existing.
     bind (add_loop net env domain subdomain target record_type existing) (\<lambda>returned.
       if returned then return True
       else
         bind (ovh_call net env ''POST'' (create_path domain)
                 (record_body record_type subdomain target ttl)) (\<lambda>response.
           if status_code response \<in> {200, 201} then
             bind (print (''Added '' @ record_type @ '' record: '' @ subdomain @ ''.'' @ domain
                           @ '' -> '' @ target)) (\<lambda>_.
             bind (refresh_zone net env domain) (\<lambda>_.
               return True))
           else
             bind (print (''Error adding record: '' @ resp_text response)) (\<lambda>_.
               return False))))"

subsection \<open>\<open>check_record\<close>\<close>

text \<open>
  \<open>socket.gethostbyname\<close> is a function of the resolver: it returns an address or
  raises. Only \<open>socket.gaierror\<close> is caught.
\<close>

definition check_record ::
  "(string \<Rightarrow> string result) \<Rightarrow> string \<Rightarrow> string \<Rightarrow> ('w, string option) prog" where
  "check_record dns domain subdomain =
     (let fqdn = subdomain @ ''.'' @ domain in
      case dns fqdn of
        Return ip \<Rightarrow>
          bind (print (''DNS resolution: '' @ fqdn @ '' -> '' @ ip)) (\<lambda>_. return (Some ip))
      | Raise e \<Rightarrow>
          if e = GaiError then
            bind (print (''DNS resolution failed for '' @ fqdn)) (\<lambda>_. return None)
          else raise e)"

subsection \<open>\<open>main\<close>\<close>

datatype action = A_add | A_list | A_delete | A_check | A_ip

text \<open>
  The command line as \<open>argparse\<close> reads it: the action (one of the five choices), the
  optional positional subdomain, and the flags, each \<open>None\<close> when it is not given.
  The defaults that the parser declares are applied in \<open>main\<close>.
\<close>

record args =
  arg_action :: action
  arg_subdomain :: "string option"
  arg_domain :: "string option"
  arg_ip :: "string option"
  arg_type :: "string option"
  arg_ttl :: "int option"

text \<open>\<open>parser.error\<close> writes the usage message to standard error and exits with status 2.\<close>

definition parser_error :: "('w, 'a) prog" where
  "parser_error = raise (SystemExit 2)"

definition record_line :: "dns_record \<Rightarrow> string" where
  "record_line rec =
     (let sub = (if subDomain rec \<noteq> [] then subDomain rec else ''@'') in
      ''  '' @ ljust 20 sub @ '' '' @ ljust 6 (fieldType rec) @ '' '' @ rec_target rec)"

fun print_records :: "dns_record list \<Rightarrow> ('w, unit) prog" where
  "print_records [] = return ()"
| "print_records (rec # recs) = bind (print (record_line rec)) (\<lambda>_. print_records recs)"

definition main ::
  "'w network \<Rightarrow> (string \<Rightarrow> string result) \<Rightarrow> environ \<Rightarrow> args \<Rightarrow> ('w, unit) prog" where
  "main net dns env a =
     (let domain_opt = (case arg_domain a of None \<Rightarrow> DEFAULT_DOMAIN env | Some d \<Rightarrow> Some d);
          record_type = (case arg_type a of None \<Rightarrow> ''CNAME'' | Some t \<Rightarrow> t);
          ttl = (case arg_ttl a of None \<Rightarrow> 3600 | Some n \<Rightarrow> n)
      in
      if arg_action a = A_ip then
        bind (get_server_ip net) (\<lambda>ip.
          if truthy ip then print (''Server public IP: '' @ the ip)
          else print ''Could not determine server IP'')
      else if \<not> truthy domain_opt then parser_error
      else
        let domain = the domain_opt in
        if arg_action a = A_list then
          bind (list_records net env domain None (arg_subdomain a)) (\<lambda>records.
            if records = [] then print (''No records found for '' @ domain)
            else
              bind (print (CHR 0x0A # ''DNS Records for '' @ domain @ '':'')) (\<lambda>_.
              bind (print (replicate 60 CHR ''-'')) (\<lambda>_.
                print_records
                  (sort_key (\<lambda>x. (subDomain x, fieldType x)) records))))
        else if \<not> truthy (arg_subdomain a) then parser_error
        else
          let subdomain = the (arg_subdomain a) in
          if arg_action a = A_add then
            if record_type = ''CNAME'' then
              bind (add_record net env domain subdomain
                      (if truthy (arg_ip a) then the (arg_ip a) else domain @ ''.'')
                      record_type ttl) (\<lambda>_. return ())
            else if truthy (arg_ip a) then
              bind (add_record net env domain subdomain (the (arg_ip a)) record_type ttl)
                (\<lambda>_. return ())
            else
              bind (get_server_ip net) (\<lambda>target.
                if \<not> truthy target then
                  bind (print
                    ''Error: Could not determine IP address. Use --ip/--target to specify.'')
                    (\<lambda>_. raise (SystemExit 1))
                else
                  bind (add_record net env domain subdomain (the target) record_type ttl)
                    (\<lambda>_. return ()))
          else if arg_action a = A_delete then
            bind (delete_record net env domain subdomain record_type) (\<lambda>_. return ())
          else if arg_action a = A_check then
            bind (check_record dns domain subdomain) (\<lambda>_. return ())
          else return ())"

text \<open>
  The exit status of the process: 0 when \<open>main\<close> returns, the argument of \<open>sys.exit\<close>
  when it is called, and 1 when another exception reaches the top.
\<close>

fun exit_code :: "unit result \<Rightarrow> int" where
  "exit_code (Return _) = 0"
| "exit_code (Raise (SystemExit n)) = n"
| "exit_code (Raise _) = 1"

section \<open>Reading the log\<close>

text \<open>The exchanges that a run from \<open>s\<close> to \<open>s'\<close> added to the log.\<close>

definition new_calls :: "'w world \<Rightarrow> 'w world \<Rightarrow> (request \<times> response option) list" where
  "new_calls s s' = drop (length (calls s)) (calls s')"

definition new_lines :: "'w world \<Rightarrow> 'w world \<Rightarrow> string list" where
  "new_lines s s' = drop (length (stdout s)) (stdout s')"

text \<open>An authenticated call: a request to the provider's endpoint that carries a signature.\<close>

definition is_api_call :: "request \<times> response option \<Rightarrow> bool" where
  "is_api_call x = (take (length OVH_ENDPOINT) (rq_url (fst x)) = OVH_ENDPOINT)"

text \<open>A mutating call: any request that is not a \<open>GET\<close>.\<close>

definition is_mutating :: "request \<times> response option \<Rightarrow> bool" where
  "is_mutating x = (rq_method (fst x) \<noteq> ''GET'')"

definition is_delete :: "request \<times> response option \<Rightarrow> bool" where
  "is_delete x = (rq_method (fst x) = ''DELETE'')"

definition is_create :: "string \<Rightarrow> request \<times> response option \<Rightarrow> bool" where
  "is_create domain x =
     (rq_method (fst x) = ''POST'' \<and> rq_url (fst x) = OVH_ENDPOINT @ create_path domain)"

definition is_refresh :: "string \<Rightarrow> request \<times> response option \<Rightarrow> bool" where
  "is_refresh domain x =
     (rq_method (fst x) = ''POST'' \<and> rq_url (fst x) = OVH_ENDPOINT @ refresh_path domain)"

text \<open>Method, URL and status of an exchange.\<close>

definition brief :: "request \<times> response option \<Rightarrow> string \<times> string \<times> int option" where
  "brief x = (rq_method (fst x), rq_url (fst x), map_option status_code (snd x))"

text \<open>The mutating exchanges of a run, in brief.\<close>

definition mutations :: "'w world \<Rightarrow> 'w world \<Rightarrow> (string \<times> string \<times> int option) list" where
  "mutations s s' = map brief (filter is_mutating (new_calls s s'))"

text \<open>The log of \<open>s'\<close> continues the log of \<open>s\<close>.\<close>

definition extends :: "'w world \<Rightarrow> 'w world \<Rightarrow> bool" where
  "extends s s' = (take (length (calls s)) (calls s') = calls s)"

section \<open>A scripted network\<close>

text \<open>
  A network whose replies are fixed in advance: the n-th request receives the n-th
  entry of the script (\<open>None\<close>: the request raises), and every request raises once the
  script is used up.
\<close>

fun scripted :: "response option list network" where
  "scripted [] q = (None, [])"
| "scripted (r # rs) q = (r, rs)"

definition reply :: "int \<Rightarrow> string \<Rightarrow> response option" where
  "reply st body =
     Some \<lparr>status_code = st, resp_text = body, json_ids = None, json_record = None\<rparr>"

definition reply_ids :: "int list \<Rightarrow> response option" where
  "reply_ids ids =
     Some \<lparr>status_code = 200, resp_text = ''[...]'', json_ids = Some ids, json_record = None\<rparr>"

definition reply_record :: "dns_record \<Rightarrow> response option" where
  "reply_record rec =
     Some \<lparr>status_code = 200, resp_text = ''{...}'', json_ids = None, json_record = Some rec\<rparr>"

definition start :: "'w \<Rightarrow> 'w world" where
  "start w = \<lparr>server = w, calls = [], stdout = []\<rparr>"

definition time_reply :: "response option" where
  "time_reply = reply 200 ''1700000000''"

definition record_1 :: dns_record where
  "record_1 =
     \<lparr>rec_id = 1, subDomain = ''www'', fieldType = ''A'', rec_target = ''1.1.1.1'',
      rec_ttl = 3600\<rparr>"

definition record_2 :: dns_record where
  "record_2 =
     \<lparr>rec_id = 2, subDomain = ''www'', fieldType = ''A'', rec_target = ''2.2.2.2'',
      rec_ttl = 3600\<rparr>"

definition credentials :: environ where
  "credentials =
     [''OVH_APPLICATION_KEY'' \<mapsto> ''ak'', ''OVH_APPLICATION_SECRET'' \<mapsto> ''as'',
      ''OVH_CONSUMER_KEY'' \<mapsto> ''ck'']"

text \<open>
  The replies of a provider whose zone holds \<open>record_1\<close> alone, to an \<open>add\<close> of \<open>www\<close> with
  the target \<open>2.2.2.2\<close>: the listing and the detail of the record, the same again for the
  listing that \<open>delete_record\<close> makes, then the replies to the DELETE, to the refresh, to
  the create and to the second refresh; each is preceded by the reply to the time request.
\<close>

definition update_script :: "response option list" where
  "update_script =
     [time_reply, reply_ids [1], time_reply, reply_record record_1,
      time_reply, reply_ids [1], time_reply, reply_record record_1,
      time_reply, reply 200 ''null'',
      time_reply, reply 200 ''null'',
      time_reply, reply 200 ''{...}'',
      time_reply, reply 200 ''null'']"

text \<open>The call \<open>add_record("example.com", "www", "2.2.2.2", "A", 3600)\<close> on that zone.\<close>

definition update_call :: "bool result \<times> response option list world" where
  "update_call =
     add_record scripted credentials ''example.com'' ''www'' ''2.2.2.2'' ''A'' 3600
       (start update_script)"

text \<open>
  The replies of a provider whose zone holds \<open>record_1\<close> and \<open>record_2\<close>, two \<open>A\<close> records of
  \<open>www\<close>, to two \<open>add\<close> of \<open>www\<close> with the target \<open>2.2.2.2\<close> in a row. First call: the
  listing with both details, the same again for \<open>delete_record\<close>, the replies to both
  DELETE requests and to the refresh. Second call: the zone is empty by now, so the
  listing is empty, then the replies to the create and to the refresh.
\<close>

definition twice_script :: "response option list" where
  "twice_script =
     [time_reply, reply_ids [1, 2], time_reply, reply_record record_1,
      time_reply, reply_record record_2,
      time_reply, reply_ids [1, 2], time_reply, reply_record record_1,
      time_reply, reply_record record_2,
      time_reply, reply 200 ''null'',
      time_reply, reply 200 ''null'',
      time_reply, reply 200 ''null'',
      time_reply, reply_ids [],
      time_reply, reply 200 ''{...}'',
      time_reply, reply 200 ''null'']"

text \<open>
  A network on which both echo services are down: each answers every request with
  status 500 and an error page. The other requests receive the replies of the script.
\<close>

definition echo_down :: "response option list network" where
  "echo_down w q =
     (if rq_url q = ''https://api.ipify.org'' \<or> rq_url q = ''https://ifconfig.me''
      then (reply 500 ''Internal Server Error'', w)
      else scripted w q)"

text \<open>
  The replies of a provider whose zone is empty to an \<open>add\<close> of \<open>api\<close>: the empty listing,
  then the replies to the create and to the refresh.
\<close>

definition create_script :: "response option list" where
  "create_script =
     [time_reply, reply_ids [], time_reply, reply 200 ''{...}'', time_reply, reply 200 ''null'']"

text \<open>\<open>add api --type A --domain example.com\<close>, with no \<open>--ip\<close>.\<close>

definition add_api :: args where
  "add_api =
     \<lparr>arg_action = A_add, arg_subdomain = Some ''api'', arg_domain = Some ''example.com'',
      arg_ip = None, arg_type = Some ''A'', arg_ttl = None\<rparr>"

definition add_api_echo_down :: "unit result \<times> response option list world" where
  "add_api_echo_down =
     main echo_down (\<lambda>_. Raise GaiError) credentials add_api (start create_script)"

text \<open>The same call on that zone, and once more on the state that the first call left.\<close>

definition first_call :: "bool result \<times> response option list world" where
  "first_call =
     add_record scripted credentials ''example.com'' ''www'' ''2.2.2.2'' ''A'' 3600
       (start twice_script)"

definition second_call :: "bool result \<times> response option list world" where
  "second_call =
     add_record scripted credentials ''example.com'' ''www'' ''2.2.2.2'' ''A'' 3600
       (snd first_call)"

section \<open>The detail fetches of a listing\<close>

text \<open>
  The detail fetch of every listed id, in listing order, keeping every response whatever
  its status: what \<open>list_records\<close> asks the provider after the listing query.
\<close>

fun detail_fetches ::
  "'w network \<Rightarrow> environ \<Rightarrow> string \<Rightarrow> int list \<Rightarrow> ('w, response list) prog" where
  "detail_fetches net env domain [] = return []"
| "detail_fetches net env domain (record_id # ids) =
     bind (ovh_call net env ''GET'' (record_path domain record_id) []) (\<lambda>r.
     bind (detail_fetches net env domain ids) (\<lambda>rs. return (r # rs)))"

section \<open>Basic facts about the state-passing combinators\<close>

lemma bind_return [simp]: "bind (return a) f s = f a s"
  by (simp add: bind_def return_def)

lemma bind_raise [simp]: "bind (raise e) f s = (Raise e, s)"
  by (simp add: bind_def raise_def)

lemma bind_print [simp]: "bind (print l) f s = f () (s\<lparr>stdout := stdout s @ [l]\<rparr>)"
  by (simp add: bind_def print_def)

lemma return_apply [simp]: "return a s = (Return a, s)"
  by (simp add: return_def)

lemma raise_apply [simp]: "raise e s = (Raise e, s)"
  by (simp add: raise_def)

lemma print_apply [simp]: "print l s = (Return (), s\<lparr>stdout := stdout s @ [l]\<rparr>)"
  by (simp add: print_def)

lemma bind_Return: "m s = (Return a, s') \<Longrightarrow> bind m f s = f a s'"
  by (simp add: bind_def)

lemma bind_Raise: "m s = (Raise e, s') \<Longrightarrow> bind m f s = (Raise e, s')"
  by (simp add: bind_def)

lemma bind_eq_Return:
  "bind m f s = (Return b, s') \<longleftrightarrow>
     (\<exists>a s1. m s = (Return a, s1) \<and> f a s1 = (Return b, s'))"
  by (auto simp: bind_def split: prod.splits result.splits)

lemma http_Some:
  "net (server s) q = (Some r, w) \<Longrightarrow>
   http net q s = (Return r, s\<lparr>server := w, calls := calls s @ [(q, Some r)]\<rparr>)"
  by (simp add: http_def)

lemma http_None:
  "net (server s) q = (None, w) \<Longrightarrow>
   http net q s = (Raise RequestException, s\<lparr>server := w, calls := calls s @ [(q, None)]\<rparr>)"
  by (simp add: http_def)

section \<open>Running the script on a scripted network\<close>

text \<open>The definitions that the simplifier unfolds to run the script on concrete replies.\<close>

lemmas run_defs =
  ovh_call_def http_def credentials_def start_def reply_def reply_ids_def reply_record_def
  time_reply_def list_records_def list_path_def record_path_def bind_def Let_def

lemmas eval_defs =
  run_defs add_record_def delete_record_def refresh_zone_def record_1_def record_2_def
  create_path_def refresh_path_def str_int_def str_nat.simps digit_char_def
  mutations_def brief_def is_mutating_def new_calls_def new_lines_def
  time_request_def api_request_def OVH_ENDPOINT_def

section \<open>The public-IP resolver\<close>

text \<open>
  C3, as the code has it. \<open>get_server_ip\<close> asks the secondary echo service exactly when
  the request to the primary raises (a timeout, a network error). A response from the
  primary is not a failure, whatever its status: its stripped body is the result and the
  secondary is not asked. When the request to the primary raises, the secondary is asked
  and its stripped body is the result; when that request raises too, the result is
  \<open>None\<close>.
\<close>

theorem get_server_ip_fallback:
  "(net (server s) (echo_request ''https://api.ipify.org'') = (Some r, w) \<longrightarrow>
      get_server_ip net s =
        (Return (Some (strip (resp_text r))),
         s\<lparr>server := w,
           calls := calls s @ [(echo_request ''https://api.ipify.org'', Some r)]\<rparr>))
   \<and> (net (server s) (echo_request ''https://api.ipify.org'') = (None, w) \<longrightarrow>
      get_server_ip net s =
        (case net w (echo_request ''https://ifconfig.me'') of
           (Some r', w') \<Rightarrow>
             (Return (Some (strip (resp_text r'))),
              s\<lparr>server := w',
                calls := calls s @ [(echo_request ''https://api.ipify.org'', None),
                                    (echo_request ''https://ifconfig.me'', Some r')]\<rparr>)
         | (None, w') \<Rightarrow>
             (Return None,
              s\<lparr>server := w',
                calls := calls s @ [(echo_request ''https://api.ipify.org'', None),
                                    (echo_request ''https://ifconfig.me'', None)]\<rparr>)))"
  by (simp add: get_server_ip_def http_def split: prod.splits option.splits)

text \<open>
  Both halves at work. The primary answers with status 404: its body is the result and
  the secondary, which would have answered with an address, is not asked. The primary
  times out: the secondary is asked and answers with an address followed by a newline.
\<close>

theorem get_server_ip_fallback_witness:
  "get_server_ip scripted (start [reply 404 ''Not Found'', reply 200 ''203.0.113.5''])
     = (Return (Some ''Not Found''),
        \<lparr>server = [reply 200 ''203.0.113.5''],
         calls = [(echo_request ''https://api.ipify.org'', reply 404 ''Not Found'')],
         stdout = []\<rparr>)
   \<and> get_server_ip scripted (start [None, reply 200 (''203.0.113.5'' @ [CHR 0x0A])])
     = (Return (Some ''203.0.113.5''),
        \<lparr>server = [],
         calls = [(echo_request ''https://api.ipify.org'', None),
                  (echo_request ''https://ifconfig.me'',
                   reply 200 (''203.0.113.5'' @ [CHR 0x0A]))],
         stdout = []\<rparr>)"
proof -
  have h: "scripted (server (start [reply 404 ''Not Found'', reply 200 ''203.0.113.5'']))
        (echo_request ''https://api.ipify.org'')
      = (Some \<lparr>status_code = 404, resp_text = ''Not Found'', json_ids = None,
                json_record = None\<rparr>, [reply 200 ''203.0.113.5''])"
    by (simp add: start_def reply_def)
  have k: "scripted (server (start [None, reply 200 (''203.0.113.5'' @ [CHR 0x0A])]))
        (echo_request ''https://api.ipify.org'')
      = (None, [reply 200 (''203.0.113.5'' @ [CHR 0x0A])])"
    by (simp add: start_def)
  note a = get_server_ip_fallback [where net = scripted, THEN conjunct1, rule_format, OF h]
  note b = get_server_ip_fallback [where net = scripted, THEN conjunct2, rule_format, OF k]
  from a b show ?thesis
    by (simp add: start_def reply_def strip_def is_space_def)
qed

text \<open>
  C3 as the specification words it fails twice. The primary answers with status 500:
  the body of the error page is returned and the secondary is never asked. Both requests
  raise: the result is \<open>None\<close>, not the string \<open>unknown\<close>.
\<close>

theorem get_server_ip_counterexample:
  "get_server_ip scripted
       (start [reply 500 ''Internal Server Error'', reply 200 ''203.0.113.5''])
     = (Return (Some ''Internal Server Error''),
        \<lparr>server = [reply 200 ''203.0.113.5''],
         calls = [(echo_request ''https://api.ipify.org'',
                   reply 500 ''Internal Server Error'')],
         stdout = []\<rparr>)
   \<and> fst (get_server_ip scripted (start [None, None])) = Return None
   \<and> fst (get_server_ip scripted (start [None, None])) \<noteq> Return (Some ''unknown'')"
  by (simp add: get_server_ip_def http_def start_def reply_def strip_def is_space_def)

section \<open>\<open>add\<close> without an address\<close>

text \<open>
  C7, as the code has it. An \<open>add\<close> of type \<open>A\<close> with no \<open>--ip\<close>/\<open>--target\<close>, on a command line that names the
  subdomain and whose domain is known: when the requests to both echo services raise,
  the process exits with status 1, and the only requests made are the two to the echo
  services, so no call reaches the provider.
\<close>

theorem main_add_without_ip:
  assumes "arg_action a = A_add" and "arg_type a = Some ''A''" and "arg_ip a = None"
    and "truthy (arg_subdomain a)"
    and "truthy (case arg_domain a of None \<Rightarrow> DEFAULT_DOMAIN env | Some d \<Rightarrow> Some d)"
    and "net (server s) (echo_request ''https://api.ipify.org'') = (None, w)"
    and "net w (echo_request ''https://ifconfig.me'') = (None, w')"
  shows "exit_code (fst (main net dns env a s)) = 1
    \<and> new_calls s (snd (main net dns env a s))
        = [(echo_request ''https://api.ipify.org'', None),
           (echo_request ''https://ifconfig.me'', None)]
    \<and> filter is_api_call (new_calls s (snd (main net dns env a s))) = []"
proof -
  have ip: "get_server_ip net s =
      (Return None, s\<lparr>server := w',
         calls := calls s @ [(echo_request ''https://api.ipify.org'', None),
                             (echo_request ''https://ifconfig.me'', None)]\<rparr>)"
    using assms(6,7) by (simp add: get_server_ip_def http_def)
  have run: "main net dns env a s =
      (Raise (SystemExit 1),
       s\<lparr>server := w',
         calls := calls s @ [(echo_request ''https://api.ipify.org'', None),
                             (echo_request ''https://ifconfig.me'', None)],
         stdout := stdout s
           @ [''Error: Could not determine IP address. Use --ip/--target to specify.'']\<rparr>)"
    using assms(1-5)
    by (simp add: main_def Let_def bind_Return [where m = "get_server_ip net", OF ip])
  show ?thesis
    by (simp add: run new_calls_def is_api_call_def echo_request_def OVH_ENDPOINT_def)
qed

text \<open>\<open>add api --type A --domain example.com\<close> while both echo services time out.\<close>

theorem main_add_without_ip_witness:
  "exit_code (fst (main scripted (\<lambda>_. Raise GaiError) credentials
      \<lparr>arg_action = A_add, arg_subdomain = Some ''api'', arg_domain = Some ''example.com'',
       arg_ip = None, arg_type = Some ''A'', arg_ttl = None\<rparr> (start [None, None]))) = 1
   \<and> filter is_api_call (new_calls (start [None, None])
        (snd (main scripted (\<lambda>_. Raise GaiError) credentials
      \<lparr>arg_action = A_add, arg_subdomain = Some ''api'', arg_domain = Some ''example.com'',
       arg_ip = None, arg_type = Some ''A'', arg_ttl = None\<rparr> (start [None, None])))) = []"
proof -
  let ?a = "\<lparr>arg_action = A_add, arg_subdomain = Some ''api'',
       arg_domain = Some ''example.com'', arg_ip = None, arg_type = Some ''A'',
       arg_ttl = None\<rparr>"
  have h1: "arg_action ?a = A_add" and h2: "arg_type ?a = Some ''A''"
    and h3: "arg_ip ?a = None" and h4: "truthy (arg_subdomain ?a)"
    by simp_all
  have h5: "truthy (case arg_domain ?a of None \<Rightarrow> DEFAULT_DOMAIN credentials
                    | Some d \<Rightarrow> Some d)"
    by simp
  have h6: "scripted (server (start [None, None])) (echo_request ''https://api.ipify.org'')
      = (None, [None])"
    by (simp add: start_def)
  have h7: "scripted [None] (echo_request ''https://ifconfig.me'') = (None, [])"
    by simp
  from main_add_without_ip [where net = scripted and dns = "\<lambda>_. Raise GaiError",
      OF h1 h2 h3 h4 h5 h6 h7]
  show ?thesis by blast
qed

text \<open>
  C7 as the specification words it does not hold, since a service that answers with an
  error status has failed too. Both echo services answer every request with status 500:
  \<open>get_server_ip\<close> returns the body of the error page, \<open>main\<close> calls \<open>add_record\<close> with
  that body as the target, six requests reach the provider, the create and the refresh
  among them, and the process exits with status 0.
\<close>

lemmas add_api_echo_down_defs =
  add_api_echo_down_def add_api_def main_def get_server_ip_def echo_down_def
  echo_request_def create_script_def eval_defs strip_def is_space_def

lemma add_api_echo_down_api_calls:
  "\<exists>t. add_api_echo_down = (Return (), t)
     \<and> length (filter is_api_call (new_calls (start create_script) t)) = 6"
  by (simp add: add_api_echo_down_defs is_api_call_def)

lemma add_api_echo_down_mutations:
  "\<exists>t. add_api_echo_down = (Return (), t)
     \<and> mutations (start create_script) t
         = [(''POST'', ''https://eu.api.ovh.com/1.0/domain/zone/example.com/record'',
             Some 200),
            (''POST'', ''https://eu.api.ovh.com/1.0/domain/zone/example.com/refresh'',
             Some 200)]"
  by (simp add: add_api_echo_down_defs)

lemma add_api_echo_down_created:
  "\<exists>t. add_api_echo_down = (Return (), t)
     \<and> map (\<lambda>x. rq_data (fst x))
           (filter (is_create ''example.com'') (new_calls (start create_script) t))
         = [Some (record_body ''A'' ''api'' ''Internal Server Error'' 3600)]"
  by (simp add: add_api_echo_down_defs is_create_def)

theorem main_add_counterexample:
  "fst (echo_down create_script (echo_request ''https://api.ipify.org''))
     = reply 500 ''Internal Server Error''
   \<and> fst (echo_down create_script (echo_request ''https://ifconfig.me''))
     = reply 500 ''Internal Server Error''
   \<and> arg_action add_api = A_add \<and> arg_type add_api = Some ''A'' \<and> arg_ip add_api = None
   \<and> exit_code (fst add_api_echo_down) = 0
   \<and> length (filter is_api_call (new_calls (start create_script) (snd add_api_echo_down)))
       = 6
   \<and> mutations (start create_script) (snd add_api_echo_down)
       = [(''POST'', ''https://eu.api.ovh.com/1.0/domain/zone/example.com/record'',
           Some 200),
          (''POST'', ''https://eu.api.ovh.com/1.0/domain/zone/example.com/refresh'',
           Some 200)]
   \<and> map (\<lambda>x. rq_data (fst x))
         (filter (is_create ''example.com'')
            (new_calls (start create_script) (snd add_api_echo_down)))
       = [Some (record_body ''A'' ''api'' ''Internal Server Error'' 3600)]"
proof -
  have e1: "fst (echo_down create_script (echo_request ''https://api.ipify.org''))
       = reply 500 ''Internal Server Error''"
    by (simp add: echo_down_def echo_request_def)
  have e2: "fst (echo_down create_script (echo_request ''https://ifconfig.me''))
       = reply 500 ''Internal Server Error''"
    by (simp add: echo_down_def echo_request_def)
  have a1: "arg_action add_api = A_add" and a2: "arg_type add_api = Some ''A''"
    and a3: "arg_ip add_api = None"
    by (simp_all add: add_api_def)
  have x: "exit_code (fst add_api_echo_down) = 0"
  proof -
    from add_api_echo_down_api_calls obtain t
      where t: "add_api_echo_down = (Return (), t)"
      by (elim exE conjE)
    show ?thesis unfolding t by simp
  qed
  have n: "length (filter is_api_call
        (new_calls (start create_script) (snd add_api_echo_down))) = 6"
  proof -
    from add_api_echo_down_api_calls obtain t
      where t: "add_api_echo_down = (Return (), t)"
        and k: "length (filter is_api_call (new_calls (start create_script) t)) = 6"
      by (elim exE conjE)
    show ?thesis unfolding t snd_conv by (rule k)
  qed
  have m: "mutations (start create_script) (snd add_api_echo_down)
       = [(''POST'', ''https://eu.api.ovh.com/1.0/domain/zone/example.com/record'',
           Some 200),
          (''POST'', ''https://eu.api.ovh.com/1.0/domain/zone/example.com/refresh'',
           Some 200)]"
  proof -
    from add_api_echo_down_mutations obtain t
      where t: "add_api_echo_down = (Return (), t)"
        and k: "mutations (start create_script) t
         = [(''POST'', ''https://eu.api.ovh.com/1.0/domain/zone/example.com/record'',
             Some 200),
            (''POST'', ''https://eu.api.ovh.com/1.0/domain/zone/example.com/refresh'',
             Some 200)]"
      by (elim exE conjE)
    show ?thesis unfolding t snd_conv by (rule k)
  qed
  have c: "map (\<lambda>x. rq_data (fst x))
         (filter (is_create ''example.com'')
            (new_calls (start create_script) (snd add_api_echo_down)))
       = [Some (record_body ''A'' ''api'' ''Internal Server Error'' 3600)]"
  proof -
    from add_api_echo_down_created obtain t
      where t: "add_api_echo_down = (Return (), t)"
        and k: "map (\<lambda>x. rq_data (fst x))
           (filter (is_create ''example.com'') (new_calls (start create_script) t))
         = [Some (record_body ''A'' ''api'' ''Internal Server Error'' 3600)]"
      by (elim exE conjE)
    show ?thesis unfolding t snd_conv by (rule k)
  qed
  show ?thesis
    by (intro conjI e1 e2 a1 a2 a3 x n m c)
qed

section \<open>What \<open>ovh_call\<close> and \<open>list_records\<close> do to the log\<close>

lemma missing_credentials_Raise:
  "missing_credentials s =
     (Raise (SystemExit 1),
      s\<lparr>stdout := stdout s @ [''Error: OVH API credentials not found in .env'',
        ''Required: OVH_APPLICATION_KEY, OVH_APPLICATION_SECRET, OVH_CONSUMER_KEY'']\<rparr>)"
  by (simp add: missing_credentials_def)

lemma ovh_call_signed:
  assumes "env ''OVH_APPLICATION_KEY'' = Some ak" "env ''OVH_APPLICATION_SECRET'' = Some sk"
    "env ''OVH_CONSUMER_KEY'' = Some ck" "ak \<noteq> []" "sk \<noteq> []" "ck \<noteq> []"
    "method = ''GET'' \<or> method = ''POST'' \<or> method = ''PUT'' \<or> method = ''DELETE''"
  shows "ovh_call net env method path body =
    bind (http net time_request) (\<lambda>tr.
      http net (signed_request ak sk ck method path body (resp_text tr)))"
  using assms by (auto simp: ovh_call_def signed_request_def Let_def)

lemma ovh_call_Return:
  assumes "ovh_call net env method path body s = (Return r, s')"
  shows "\<exists>ak sk ck tr w1 w2.
       env ''OVH_APPLICATION_KEY'' = Some ak \<and> env ''OVH_APPLICATION_SECRET'' = Some sk
     \<and> env ''OVH_CONSUMER_KEY'' = Some ck
     \<and> net (server s) time_request = (Some tr, w1)
     \<and> net w1 (signed_request ak sk ck method path body (resp_text tr)) = (Some r, w2)
     \<and> s' = s\<lparr>server := w2, calls := calls s @ [(time_request, Some tr),
           (signed_request ak sk ck method path body (resp_text tr), Some r)]\<rparr>"
  using assms
  by (auto simp: ovh_call_def missing_credentials_Raise bind_def http_def Let_def
        signed_request_def
      split: option.splits if_splits prod.splits result.splits)

lemma ovh_call_stdout:
  "ovh_call net env method path body s = (Return r, s') \<Longrightarrow> stdout s' = stdout s"
  by (auto dest!: ovh_call_Return)

lemma ovh_call_calls:
  assumes "ovh_call net env method path body s = (res, s')"
  shows "\<exists>ex. calls s' = calls s @ ex
     \<and> (\<forall>x\<in>set ex. rq_method (fst x) = ''GET'' \<or> rq_method (fst x) = method)"
  using assms
  by (auto simp: ovh_call_def missing_credentials_Raise bind_def http_def Let_def
        api_request_def time_request_def
      split: option.splits if_splits prod.splits result.splits)

lemma ovh_call_GET_calls:
  assumes "ovh_call net env ''GET'' path body s = (res, s')"
  shows "\<exists>ex. calls s' = calls s @ ex \<and> filter is_mutating ex = []"
  using ovh_call_calls [OF assms] by (auto simp: is_mutating_def filter_empty_conv)

lemma fetch_records_calls:
  "fetch_records net env domain ids acc s = (res, s') \<Longrightarrow>
   \<exists>ex. calls s' = calls s @ ex \<and> filter is_mutating ex = []"
proof (induction ids arbitrary: acc s)
  case Nil
  then show ?case by simp
next
  case (Cons i ids)
  obtain r0 s0 where c: "ovh_call net env ''GET'' (record_path domain i) [] s = (r0, s0)"
    by (cases "ovh_call net env ''GET'' (record_path domain i) [] s")
  from ovh_call_GET_calls [OF c] obtain ex0
    where ex0: "calls s0 = calls s @ ex0" "filter is_mutating ex0 = []" by blast
  show ?case
  proof (cases r0)
    case (Raise e)
    with Cons.prems c ex0 show ?thesis by (auto simp: bind_def)
  next
    case (Return r)
    with Cons.prems c have
      "(status_code r = 200 \<and> json_record r = None \<and> s' = s0)
       \<or> (\<exists>acc'. fetch_records net env domain ids acc' s0 = (res, s'))"
      by (auto simp: bind_def split: if_splits option.splits)
    then show ?thesis
    proof
      assume "status_code r = 200 \<and> json_record r = None \<and> s' = s0"
      with ex0 show ?thesis by auto
    next
      assume "\<exists>acc'. fetch_records net env domain ids acc' s0 = (res, s')"
      then obtain acc' where "fetch_records net env domain ids acc' s0 = (res, s')" ..
      from Cons.IH [OF this] obtain ex1
        where "calls s' = calls s0 @ ex1" "filter is_mutating ex1 = []" by blast
      with ex0 show ?thesis by auto
    qed
  qed
qed

lemma fetch_records_stdout:
  "fetch_records net env domain ids acc s = (Return recs, s') \<Longrightarrow> stdout s' = stdout s"
proof (induction ids arbitrary: acc s)
  case Nil
  then show ?case by simp
next
  case (Cons i ids)
  from Cons.prems obtain r s0
    where c: "ovh_call net env ''GET'' (record_path domain i) [] s = (Return r, s0)"
      and "\<exists>acc'. fetch_records net env domain ids acc' s0 = (Return recs, s')"
    by (auto simp: bind_eq_Return split: if_splits option.splits)
  then show ?case using Cons.IH ovh_call_stdout [OF c] by auto
qed

lemma list_records_calls:
  assumes "list_records net env domain record_type subdomain s = (res, s')"
  shows "\<exists>ex. calls s' = calls s @ ex \<and> filter is_mutating ex = []"
proof -
  obtain r0 s0 where c:
    "ovh_call net env ''GET'' (list_path domain record_type subdomain) [] s = (r0, s0)"
    by (cases "ovh_call net env ''GET'' (list_path domain record_type subdomain) [] s")
  from ovh_call_GET_calls [OF c] obtain ex0
    where ex0: "calls s0 = calls s @ ex0" "filter is_mutating ex0 = []" by blast
  show ?thesis
  proof (cases r0)
    case (Raise e)
    with assms c ex0 show ?thesis by (auto simp: list_records_def bind_def)
  next
    case (Return r)
    with assms c have
      "calls s' = calls s0 \<or> (\<exists>ids. fetch_records net env domain ids [] s0 = (res, s'))"
      by (auto simp: list_records_def bind_def split: if_splits option.splits)
    then show ?thesis
    proof
      assume "calls s' = calls s0"
      with ex0 show ?thesis by auto
    next
      assume "\<exists>ids. fetch_records net env domain ids [] s0 = (res, s')"
      then obtain ids where "fetch_records net env domain ids [] s0 = (res, s')" ..
      from fetch_records_calls [OF this] obtain ex1
        where "calls s' = calls s0 @ ex1" "filter is_mutating ex1 = []" by blast
      with ex0 show ?thesis by auto
    qed
  qed
qed

lemma list_records_stdout:
  assumes "list_records net env domain record_type subdomain s = (Return recs, s')"
    and "recs \<noteq> []"
  shows "stdout s' = stdout s"
proof -
  from assms obtain r s0 ids
    where c: "ovh_call net env ''GET'' (list_path domain record_type subdomain) [] s
                = (Return r, s0)"
      and f: "fetch_records net env domain ids [] s0 = (Return recs, s')"
    by (auto simp: list_records_def bind_eq_Return split: if_splits option.splits)
  show ?thesis using fetch_records_stdout [OF f] ovh_call_stdout [OF c] by simp
qed

lemma new_calls_append: "calls s' = calls s @ ex \<Longrightarrow> new_calls s s' = ex"
  by (simp add: new_calls_def)

lemma new_lines_append: "stdout s' = stdout s @ ls \<Longrightarrow> new_lines s s' = ls"
  by (simp add: new_lines_def)

section \<open>The signature\<close>

lemma length_hex32: "length (hex32 w) = 8"
  by (simp add: hex32_def)

lemma length_sha1_hexdigest: "length (sha1_hexdigest bs) = 40"
  by (simp add: sha1_hexdigest_def length_hex32 split: prod.splits)

lemma hex_digit_mem: "n < 16 \<Longrightarrow> hex_digit n \<in> set ''0123456789abcdef''"
  unfolding hex_digit_def by (rule nth_mem) simp

lemma nibble_less: "unat (w AND 0xF :: u32) < 16"
proof -
  have "w AND 0xF \<le> 0xF"
    by (rule word_and_le1)
  then have "unat (w AND 0xF) \<le> unat (0xF :: u32)"
    by (simp add: word_le_nat_alt)
  then show ?thesis by simp
qed

lemma set_hex32: "set (hex32 w) \<subseteq> set ''0123456789abcdef''"
  unfolding hex32_def using hex_digit_mem [OF nibble_less] by auto

lemma set_sha1_hexdigest: "set (sha1_hexdigest bs) \<subseteq> set ''0123456789abcdef''"
proof -
  obtain h0 h1 h2 h3 h4 where "sha1 bs = (h0, h1, h2, h3, h4)"
    by (cases "sha1 bs")
  then have "sha1_hexdigest bs = hex32 h0 @ hex32 h1 @ hex32 h2 @ hex32 h3 @ hex32 h4"
    by (simp add: sha1_hexdigest_def)
  then show ?thesis
    by (simp only: set_append Un_subset_iff set_hex32 simp_thms)
qed

text \<open>
  C4. With the three credentials set and the time request answered, the request that
  \<open>ovh_call\<close> sends next, for any of its four methods, carries in its header
  \<open>X-Ovh-Signature\<close> the string \<open>$1$\<close> followed by the SHA-1 digest, forty lowercase
  hexadecimal digits, of secret + consumer key + method + full URL + body + server time,
  joined by \<open>+\<close>, where the full URL is the endpoint followed by the path and the server
  time is the body of the time response.
\<close>

theorem ovh_call_signature:
  assumes "env ''OVH_APPLICATION_KEY'' = Some app_key"
    and "env ''OVH_APPLICATION_SECRET'' = Some secret"
    and "env ''OVH_CONSUMER_KEY'' = Some consumer_key"
    and "app_key \<noteq> []" and "secret \<noteq> []" and "consumer_key \<noteq> []"
    and "method = ''GET'' \<or> method = ''POST'' \<or> method = ''PUT'' \<or> method = ''DELETE''"
    and "net (server s) time_request = (Some tr, w)"
  shows "\<exists>q ro digest.
      new_calls s (snd (ovh_call net env method path body s)) = [(time_request, Some tr), (q, ro)]
    \<and> rq_method q = method
    \<and> rq_url q = OVH_ENDPOINT @ path
    \<and> map_of (rq_headers q) ''X-Ovh-Signature'' = Some (''$1$'' @ digest)
    \<and> digest = sha1_hexdigest (encode
          (secret @ ''+'' @ consumer_key @ ''+'' @ method @ ''+'' @ (OVH_ENDPOINT @ path)
             @ ''+'' @ body @ ''+'' @ resp_text tr))
    \<and> length digest = 40
    \<and> set digest \<subseteq> set ''0123456789abcdef''"
proof -
  let ?q = "signed_request app_key secret consumer_key method path body (resp_text tr)"
  let ?d = "sha1_hexdigest (encode
          (secret @ ''+'' @ consumer_key @ ''+'' @ method @ ''+'' @ (OVH_ENDPOINT @ path)
             @ ''+'' @ body @ ''+'' @ resp_text tr))"
  obtain ro w' where n: "net w ?q = (ro, w')"
    by (cases "net w ?q")
  have "calls (snd (ovh_call net env method path body s))
          = calls s @ [(time_request, Some tr), (?q, ro)]"
    using assms(8) n
    by (simp add: ovh_call_signed [OF assms(1-7)] bind_def http_def split: option.splits)
  then have "new_calls s (snd (ovh_call net env method path body s))
          = [(time_request, Some tr), (?q, ro)]"
    by (rule new_calls_append)
  moreover have "rq_method ?q = method" "rq_url ?q = OVH_ENDPOINT @ path"
    by (simp_all add: signed_request_def api_request_def)
  moreover have "map_of (rq_headers ?q) ''X-Ovh-Signature'' = Some (''$1$'' @ ?d)"
    by (simp add: signed_request_def api_request_def ovh_headers_def signature_def to_sign_def)
  moreover have "length ?d = 40"
    by (rule length_sha1_hexdigest)
  moreover have "set ?d \<subseteq> set ''0123456789abcdef''"
    by (rule set_sha1_hexdigest)
  ultimately show ?thesis by blast
qed

text \<open>A listing query, signed with the time \<open>1700000000\<close> that the provider gave.\<close>

theorem ovh_call_signature_witness:
  "\<exists>q ro digest.
      new_calls (start [time_reply, reply_ids [7]])
        (snd (ovh_call scripted credentials ''GET'' ''/domain/zone/example.com/record'' []
           (start [time_reply, reply_ids [7]])))
        = [(time_request, time_reply), (q, ro)]
    \<and> rq_method q = ''GET''
    \<and> rq_url q = ''https://eu.api.ovh.com/1.0/domain/zone/example.com/record''
    \<and> map_of (rq_headers q) ''X-Ovh-Signature'' = Some (''$1$'' @ digest)
    \<and> digest = sha1_hexdigest (encode
          ''as+ck+GET+https://eu.api.ovh.com/1.0/domain/zone/example.com/record++1700000000'')
    \<and> length digest = 40"
proof -
  have h1: "credentials ''OVH_APPLICATION_KEY'' = Some ''ak''"
    and h2: "credentials ''OVH_APPLICATION_SECRET'' = Some ''as''"
    and h3: "credentials ''OVH_CONSUMER_KEY'' = Some ''ck''"
    by (simp_all add: credentials_def)
  have h4: "''ak'' \<noteq> []" and h5: "''as'' \<noteq> []" and h6: "''ck'' \<noteq> []"
    by simp_all
  have h7: "''GET'' = ''GET'' \<or> ''GET'' = ''POST'' \<or> ''GET'' = ''PUT'' \<or> ''GET'' = ''DELETE''"
    by simp
  have h8: "scripted (server (start [time_reply, reply_ids [7]])) time_request
      = (Some \<lparr>status_code = 200, resp_text = ''1700000000'', json_ids = None,
                json_record = None\<rparr>, [reply_ids [7]])"
    by (simp add: start_def time_reply_def reply_def)
  from ovh_call_signature [where net = scripted and path = "''/domain/zone/example.com/record''"
      and body = "[]", OF h1 h2 h3 h4 h5 h6 h7 h8]
  obtain q ro digest where
    "new_calls (start [time_reply, reply_ids [7]])
        (snd (ovh_call scripted credentials ''GET'' ''/domain/zone/example.com/record'' []
           (start [time_reply, reply_ids [7]])))
        = [(time_request, time_reply), (q, ro)]"
    "rq_method q = ''GET''"
    "rq_url q = ''https://eu.api.ovh.com/1.0/domain/zone/example.com/record''"
    "map_of (rq_headers q) ''X-Ovh-Signature'' = Some (''$1$'' @ digest)"
    "digest = sha1_hexdigest (encode
          ''as+ck+GET+https://eu.api.ovh.com/1.0/domain/zone/example.com/record++1700000000'')"
    "length digest = 40"
    by (auto simp: OVH_ENDPOINT_def time_reply_def reply_def)
  then show ?thesis by blast
qed

lemma length_signature: "length (signature s c m p b t) = 43"
  by (simp add: signature_def length_sha1_hexdigest)

lemma finite_signatures: "finite {xs :: string. length xs = 43}"
  using finite_lists_length_eq [of "UNIV :: char set" 43] by simp

lemma infinite_nonempty_strings: "infinite {s :: string. s \<noteq> []}"
proof -
  have "{s :: string. s \<noteq> []} = UNIV - {[]}"
    by auto
  then show ?thesis
    using infinite_UNIV_listI [where 'a = char] by (simp add: infinite_remove)
qed

text \<open>
  C5 as the specification words it does not hold: the signatures are strings of 43
  characters, finitely many, and the secrets are infinitely many, so two different
  secrets share a signature with the other five inputs fixed.
\<close>

theorem signature_collision_counterexample:
  "\<not> (\<forall>secret secret'.
        secret \<noteq> [] \<and> secret' \<noteq> [] \<and> secret \<noteq> secret' \<longrightarrow>
        signature secret ''ck'' ''GET'' ''/domain/zone/example.com/record'' [] ''1700000000''
          \<noteq> signature secret' ''ck'' ''GET'' ''/domain/zone/example.com/record'' []
              ''1700000000'')"
proof
  let ?f = "\<lambda>secret.
    signature secret ''ck'' ''GET'' ''/domain/zone/example.com/record'' [] ''1700000000''"
  assume a: "\<forall>secret secret'.
        secret \<noteq> [] \<and> secret' \<noteq> [] \<and> secret \<noteq> secret' \<longrightarrow> ?f secret \<noteq> ?f secret'"
  have i: "inj_on ?f {s. s \<noteq> []}"
  proof (rule inj_onI)
    fix x y :: string
    assume "x \<in> {s. s \<noteq> []}" and "y \<in> {s. s \<noteq> []}" and "?f x = ?f y"
    with a show "x = y" by blast
  qed
  have "?f ` {s. s \<noteq> []} \<subseteq> {xs. length xs = 43}"
    by (auto simp: length_signature)
  then have "finite (?f ` {s. s \<noteq> []})"
    using finite_signatures by (rule finite_subset)
  then have "finite {s :: string. s \<noteq> []}"
    using i by (rule finite_imageD)
  then show False
    using infinite_nonempty_strings by simp
qed

text \<open>
  C5, as the code has it. The signature is a function of its six inputs: equal inputs give
  equal signatures. Changing any single input, the other five fixed, changes the string
  that is signed; the two signatures then differ exactly when SHA-1 gives the two
  signed strings different digests.
\<close>

theorem signature_deterministic:
  "(secret = secret' \<and> consumer_key = consumer_key' \<and> method = method' \<and> path = path'
      \<and> body = body' \<and> server_time = server_time' \<longrightarrow>
      signature secret consumer_key method path body server_time
        = signature secret' consumer_key' method' path' body' server_time')
   \<and> (to_sign secret consumer_key method path body server_time
        = to_sign secret' consumer_key method path body server_time \<longleftrightarrow> secret = secret')
   \<and> (to_sign secret consumer_key method path body server_time
        = to_sign secret consumer_key' method path body server_time
          \<longleftrightarrow> consumer_key = consumer_key')
   \<and> (to_sign secret consumer_key method path body server_time
        = to_sign secret consumer_key method' path body server_time \<longleftrightarrow> method = method')
   \<and> (to_sign secret consumer_key method path body server_time
        = to_sign secret consumer_key method path' body server_time \<longleftrightarrow> path = path')
   \<and> (to_sign secret consumer_key method path body server_time
        = to_sign secret consumer_key method path body' server_time \<longleftrightarrow> body = body')
   \<and> (to_sign secret consumer_key method path body server_time
        = to_sign secret consumer_key method path body server_time'
          \<longleftrightarrow> server_time = server_time')
   \<and> (signature secret consumer_key method path body server_time
        \<noteq> signature secret' consumer_key' method' path' body' server_time'
        \<longleftrightarrow> sha1_hexdigest (encode (to_sign secret consumer_key method path body server_time))
          \<noteq> sha1_hexdigest
              (encode (to_sign secret' consumer_key' method' path' body' server_time')))"
  by (simp add: to_sign_def signature_def)

theorem signature_deterministic_witness:
  "signature ''s'' ''c'' ''GET'' ''/p'' [] ''1'' = signature ''s'' ''c'' ''GET'' ''/p'' [] ''1''
   \<and> to_sign ''s'' ''c'' ''GET'' ''/p'' [] ''1'' \<noteq> to_sign ''s'' ''c'' ''GET'' ''/p'' [] ''2''
   \<and> to_sign ''s'' ''c'' ''GET'' ''/p'' [] ''1'' \<noteq> to_sign ''t'' ''c'' ''GET'' ''/p'' [] ''1''"
  using signature_deterministic [of "''s''" "''s''" "''c''" "''c''" "''GET''" "''GET''"
      "''/p''" "''/p''" "[]" "[]" "''1''" "''2''"]
    signature_deterministic [of "''s''" "''t''" "''c''" "''c''" "''GET''" "''GET''"
      "''/p''" "''/p''" "[]" "[]" "''1''" "''1''"]
  by simp

section \<open>\<open>list_records\<close> keeps the records fetched with status 200\<close>

lemma detail_fetches_length:
  "detail_fetches net env domain ids s = (Return rs, s') \<Longrightarrow> length rs = length ids"
proof (induction ids arbitrary: rs s)
  case Nil
  then show ?case by simp
next
  case (Cons i ids)
  then show ?case by (auto simp: bind_eq_Return)
qed

lemma detail_fetches_stdout:
  "detail_fetches net env domain ids s = (Return rs, s') \<Longrightarrow> stdout s' = stdout s"
proof (induction ids arbitrary: rs s)
  case Nil
  then show ?case by simp
next
  case (Cons i ids)
  from Cons.prems obtain r s0 rs'
    where c: "ovh_call net env ''GET'' (record_path domain i) [] s = (Return r, s0)"
      and d: "detail_fetches net env domain ids s0 = (Return rs', s')"
    by (auto simp: bind_eq_Return)
  show ?case using Cons.IH [OF d] ovh_call_stdout [OF c] by simp
qed

lemma fetch_records_detail_fetches:
  assumes "detail_fetches net env domain ids s = (Return rs, s')"
    and "\<forall>r\<in>set rs. status_code r = 200 \<longrightarrow> json_record r \<noteq> None"
  shows "fetch_records net env domain ids acc s =
    (Return (acc @ List.map_filter
       (\<lambda>r. if status_code r = 200 then json_record r else None) rs), s')"
  using assms
proof (induction ids arbitrary: rs s acc)
  case Nil
  then show ?case by (simp add:)
next
  case (Cons i ids)
  from Cons.prems(1) obtain r s0 rs'
    where c: "ovh_call net env ''GET'' (record_path domain i) [] s = (Return r, s0)"
      and d: "detail_fetches net env domain ids s0 = (Return rs', s')"
      and rs: "rs = r # rs'"
    by (auto simp: bind_eq_Return)
  from Cons.prems(2) rs have ok: "\<forall>r\<in>set rs'. status_code r = 200 \<longrightarrow> json_record r \<noteq> None"
    and r: "status_code r = 200 \<longrightarrow> json_record r \<noteq> None"
    by auto
  show ?case
  proof (cases "status_code r = 200")
    case True
    with r obtain rec where rec: "json_record r = Some rec" by auto
    show ?thesis
      using True rec rs Cons.IH [OF d ok, of "acc @ [rec]"]
      by (simp add: bind_def c)
  next
    case False
    show ?thesis
      using False rs Cons.IH [OF d ok, of acc]
      by (simp add: bind_def c)
  qed
qed

text \<open>
  C10. The listing query is answered with status 200 and the ids \<open>ids\<close>; the detail fetches
  of these ids return the responses \<open>rs\<close>, one per id in listing order (and those with
  status 200 carry a record). Then \<open>list_records\<close> returns exactly the records of the
  responses with status 200, in listing order; the records of the other responses are
  left out, nothing is printed and nothing is raised.
\<close>

theorem list_records_keeps_status_200:
  assumes "ovh_call net env ''GET'' (list_path domain record_type subdomain) [] s
             = (Return listing, s')"
    and "status_code listing = 200"
    and "json_ids listing = Some ids"
    and "detail_fetches net env domain ids s' = (Return rs, s'')"
    and "\<forall>r\<in>set rs. status_code r = 200 \<longrightarrow> json_record r \<noteq> None"
  shows "list_records net env domain record_type subdomain s =
      (Return (List.map_filter (\<lambda>r. if status_code r = 200 then json_record r else None) rs),
       s'')
    \<and> length rs = length ids
    \<and> stdout s'' = stdout s"
proof -
  have "list_records net env domain record_type subdomain s
          = fetch_records net env domain ids [] s'"
    using assms(2,3) by (simp add: list_records_def bind_def assms(1))
  then have "list_records net env domain record_type subdomain s =
      (Return (List.map_filter (\<lambda>r. if status_code r = 200 then json_record r else None) rs),
       s'')"
    using fetch_records_detail_fetches [OF assms(4,5), of "[]"] by simp
  moreover have "length rs = length ids"
    using assms(4) by (rule detail_fetches_length)
  moreover have "stdout s'' = stdout s"
    using detail_fetches_stdout [OF assms(4)] ovh_call_stdout [OF assms(1)] by simp
  ultimately show ?thesis by simp
qed

text \<open>
  Three ids are listed; the detail fetch of the second is answered with 404.
\<close>

theorem list_records_keeps_status_200_witness:
  "fst (list_records scripted credentials ''example.com'' None None
      (start [time_reply, reply_ids [1, 5, 2], time_reply, reply_record record_1,
              time_reply, reply 404 ''not found'', time_reply, reply_record record_2]))
    = Return [record_1, record_2]"
proof -
  let ?s = "start [time_reply, reply_ids [1, 5, 2], time_reply, reply_record record_1,
              time_reply, reply 404 ''not found'', time_reply, reply_record record_2]"
  let ?c = "ovh_call scripted credentials ''GET'' (list_path ''example.com'' None None) [] ?s"
  let ?d = "detail_fetches scripted credentials ''example.com'' [1, 5, 2] (snd ?c)"
  let ?rs = "[the (reply_record record_1), the (reply 404 ''not found''),
              the (reply_record record_2)]"
  have h1: "?c = (Return (the (reply_ids [1, 5, 2])), snd ?c)"
    by (simp add: run_defs)
  have h2: "status_code (the (reply_ids [1, 5, 2])) = 200"
    and h3: "json_ids (the (reply_ids [1, 5, 2])) = Some [1, 5, 2]"
    by (simp_all add: reply_ids_def)
  have h4: "?d = (Return ?rs, snd ?d)"
    by (simp add: run_defs)
  have h5: "\<forall>r\<in>set ?rs. status_code r = 200 \<longrightarrow> json_record r \<noteq> None"
    by (simp add: reply_def reply_record_def)
  from list_records_keeps_status_200 [OF h1 h2 h3 h4 h5]
  show ?thesis by (simp add: reply_def reply_record_def)
qed

section \<open>\<open>delete_record\<close> when nothing is listed\<close>

lemma delete_loop_True:
  "delete_loop net env domain subdomain recs True s = (Return b, s') \<Longrightarrow> b"
proof (induction recs arbitrary: s)
  case Nil
  then show ?case by simp
next
  case (Cons rec recs)
  then show ?case
    by (auto simp: bind_eq_Return split: if_splits)
qed

lemma delete_loop_False_lines:
  "delete_loop net env domain subdomain recs deleted s = (Return False, s') \<Longrightarrow>
   \<exists>ls. stdout s' = stdout s @ ls \<and> (\<forall>l\<in>set ls. hd l = CHR ''E'')"
proof (induction recs arbitrary: s)
  case Nil
  then show ?case by simp
next
  case (Cons rec recs)
  show ?case
  proof (cases "subDomain rec = subdomain")
    case False
    with Cons show ?thesis by simp
  next
    case True
    with Cons.prems obtain r s0
      where c: "ovh_call net env ''DELETE'' (record_path domain (rec_id rec)) [] s
                  = (Return r, s0)"
        and k: "(if status_code r \<in> {200, 204} then
            bind (print (''Deleted record: '' @ subdomain @ ''.'' @ domain @ '' (ID: ''
                          @ str_int (rec_id rec) @ '')'')) (\<lambda>_.
              delete_loop net env domain subdomain recs True)
          else
            bind (print (''Error deleting record '' @ str_int (rec_id rec) @ '': ''
                          @ resp_text r)) (\<lambda>_.
              delete_loop net env domain subdomain recs deleted)) s0 = (Return False, s')"
      by (auto simp: bind_eq_Return)
    have no: "\<not> status_code r \<in> {200, 204}"
    proof
      assume "status_code r \<in> {200, 204}"
      with k have "delete_loop net env domain subdomain recs True
          (s0\<lparr>stdout := stdout s0 @ [''Deleted record: '' @ subdomain @ ''.'' @ domain
             @ '' (ID: '' @ str_int (rec_id rec) @ '')'']\<rparr>) = (Return False, s')"
        by simp
      then show False by (auto dest: delete_loop_True)
    qed
    with k have "delete_loop net env domain subdomain recs deleted
          (s0\<lparr>stdout := stdout s0 @ [''Error deleting record '' @ str_int (rec_id rec)
             @ '': '' @ resp_text r]\<rparr>) = (Return False, s')"
      by simp
    from Cons.IH [OF this] obtain ls
      where "stdout s' = (stdout s0 @ [''Error deleting record '' @ str_int (rec_id rec)
             @ '': '' @ resp_text r]) @ ls" and "\<forall>l\<in>set ls. hd l = CHR ''E''"
      by auto
    then show ?thesis
      using ovh_call_stdout [OF c] by auto
  qed
qed

text \<open>
  C6. When the listing for (subdomain, type) returns no record, \<open>delete_record\<close> sends no
  request but the GET requests of the listing (so no DELETE and no refresh), prints the
  line \<open>No <type> record found for <subdomain>.<domain>\<close> and returns \<open>False\<close>. When the
  listing returns records and none is deleted, \<open>delete_record\<close> also returns \<open>False\<close> but
  does not print that line.
\<close>

theorem delete_record_not_found:
  "(list_records net env domain (Some record_type) (Some subdomain) s = (Return [], s') \<longrightarrow>
      delete_record net env domain subdomain record_type s =
        (Return False,
         s'\<lparr>stdout := stdout s' @ [not_found_line record_type subdomain domain]\<rparr>)
      \<and> filter is_mutating (new_calls s s') = []
      \<and> filter is_delete (new_calls s s') = []
      \<and> filter (is_refresh domain) (new_calls s s') = [])
   \<and> (list_records net env domain (Some record_type) (Some subdomain) s = (Return records, s')
        \<and> records \<noteq> []
        \<and> delete_record net env domain subdomain record_type s = (Return False, s'') \<longrightarrow>
      not_found_line record_type subdomain domain \<notin> set (new_lines s s''))"
proof (intro conjI impI)
  assume l: "list_records net env domain (Some record_type) (Some subdomain) s = (Return [], s')"
  show "delete_record net env domain subdomain record_type s =
        (Return False,
         s'\<lparr>stdout := stdout s' @ [not_found_line record_type subdomain domain]\<rparr>)"
    by (simp add: delete_record_def bind_def l)
  from list_records_calls [OF l] obtain ex
    where ex: "calls s' = calls s @ ex" "filter is_mutating ex = []" by blast
  then have n: "new_calls s s' = ex" by (simp add: new_calls_def)
  show "filter is_mutating (new_calls s s') = []"
    using ex n by simp
  then show "filter is_delete (new_calls s s') = []"
    and "filter (is_refresh domain) (new_calls s s') = []"
    by (auto simp: filter_empty_conv is_mutating_def is_delete_def is_refresh_def)
next
  assume a: "list_records net env domain (Some record_type) (Some subdomain) s
        = (Return records, s')
      \<and> records \<noteq> []
      \<and> delete_record net env domain subdomain record_type s = (Return False, s'')"
  then have l: "list_records net env domain (Some record_type) (Some subdomain) s
        = (Return records, s')" and ne: "records \<noteq> []"
    and d: "delete_record net env domain subdomain record_type s = (Return False, s'')"
    by auto
  from d l ne obtain t
    where dl: "delete_loop net env domain subdomain records False s' = (Return False, t)"
      and t: "stdout s'' = stdout t"
    by (auto simp: delete_record_def bind_def split: result.splits prod.splits if_splits)
  from delete_loop_False_lines [OF dl] obtain ls
    where ls: "stdout t = stdout s' @ ls" "\<forall>l\<in>set ls. hd l = CHR ''E''" by blast
  have "stdout s' = stdout s"
    using l ne by (rule list_records_stdout)
  with t ls have "new_lines s s'' = ls"
    by (simp add: new_lines_def)
  moreover have "hd (not_found_line record_type subdomain domain) \<noteq> CHR ''E''"
    by (simp add: not_found_line_def)
  ultimately show "not_found_line record_type subdomain domain \<notin> set (new_lines s s'')"
    using ls(2) by auto
qed

text \<open>
  An empty listing, and a listing of one record whose deletion is answered with 403.
\<close>

theorem delete_record_not_found_witness:
  "fst (delete_record scripted credentials ''example.com'' ''www'' ''A''
       (start [time_reply, reply_ids []])) = Return False
   \<and> stdout (snd (delete_record scripted credentials ''example.com'' ''www'' ''A''
       (start [time_reply, reply_ids []])))
      = [''No A record found for www.example.com'']
   \<and> fst (delete_record scripted credentials ''example.com'' ''www'' ''A''
       (start [time_reply, reply_ids [1], time_reply, reply_record record_1,
               time_reply, reply 403 ''forbidden''])) = Return False
   \<and> ''No A record found for www.example.com'' \<notin> set
       (new_lines (start [time_reply, reply_ids [1], time_reply, reply_record record_1,
               time_reply, reply 403 ''forbidden''])
         (snd (delete_record scripted credentials ''example.com'' ''www'' ''A''
           (start [time_reply, reply_ids [1], time_reply, reply_record record_1,
               time_reply, reply 403 ''forbidden'']))))"
proof -
  let ?l = "list_records scripted credentials ''example.com'' (Some ''A'') (Some ''www'')"
  let ?d = "delete_record scripted credentials ''example.com'' ''www'' ''A''"
  let ?s = "start [time_reply, reply_ids []] :: response option list world"
  let ?t = "start [time_reply, reply_ids [1], time_reply, reply_record record_1,
               time_reply, reply 403 ''forbidden'']"
  have h1: "?l ?s = (Return [], snd (?l ?s))"
    by (simp add: run_defs)
  have out: "stdout (snd (?l ?s)) = []"
    by (simp add: run_defs)
  have h2: "?l ?t = (Return [record_1], snd (?l ?t)) \<and> [record_1] \<noteq> []
      \<and> ?d ?t = (Return False, snd (?d ?t))"
    by (simp add: eval_defs)
  note thm1 = delete_record_not_found [where s' = "snd (?l ?s)" and s = ?s,
      THEN conjunct1, rule_format, OF h1]
  note thm2 = delete_record_not_found [where s' = "snd (?l ?t)" and s = ?t
      and s'' = "snd (?d ?t)" and records = "[record_1]", THEN conjunct2, rule_format, OF h2]
  from thm1 out have a: "fst (?d ?s) = Return False"
    "stdout (snd (?d ?s)) = [''No A record found for www.example.com'']"
    by (simp_all add: not_found_line_def)
  from h2 have c: "fst (?d ?t) = Return False"
    by (metis fst_conv)
  from thm2 have "''No A record found for www.example.com'' \<notin> set (new_lines ?t (snd (?d ?t)))"
    by (simp add: not_found_line_def)
  with a c show ?thesis by blast
qed

section \<open>Loading the configuration file\<close>

lemma dropWhile_append_keep:
  "\<not> P c \<Longrightarrow> dropWhile P (a @ c # b) = dropWhile P a @ c # b"
  by (induction a) auto

lemma strip_around:
  assumes "\<not> is_space c"
  shows "strip (a @ c # b) = dropWhile is_space a @ c # rev (dropWhile is_space (rev b))"
  using assms by (simp add: strip_def dropWhile_append_keep)

lemma strip_lstrip: "strip (dropWhile is_space v) = strip v"
  by (simp add: strip_def)

lemma strip_rstrip: "strip (rev (dropWhile is_space (rev v))) = strip v"
proof (cases "\<forall>x\<in>set v. is_space x")
  case True
  then have d: "dropWhile is_space v = []" "dropWhile is_space (rev v) = []"
    by simp_all
  show ?thesis by (simp add: strip_def d)
next
  case False
  then obtain c w where d: "dropWhile is_space v = c # w" and c: "\<not> is_space c"
    by (metis dropWhile_eq_Nil_conv hd_dropWhile list.exhaust list.sel(1))
  have v: "v = takeWhile is_space v @ c # w"
    using d by (metis takeWhile_dropWhile_id)
  have "strip v = c # rev (dropWhile is_space (rev w))"
    using d c strip_around [OF c, of "[]" w] by (simp add: strip_def)
  moreover have "rev (dropWhile is_space (rev v))
      = takeWhile is_space v @ c # rev (dropWhile is_space (rev w))"
    by (subst v) (simp add: dropWhile_append_keep c)
  then have "strip (rev (dropWhile is_space (rev v)))
      = dropWhile is_space (takeWhile is_space v) @ c # rev (dropWhile is_space (rev w))"
    using strip_around [OF c, of "takeWhile is_space v" "rev (dropWhile is_space (rev w))"]
    by simp
  moreover have "dropWhile is_space (takeWhile is_space v) = []"
    by (auto dest: set_takeWhileD)
  ultimately show ?thesis by (simp only: append_Nil)
qed

lemma not_space_eq: "\<not> is_space CHR ''=''"
  by (simp add: is_space_def)

lemma parse_line_key_value:
  assumes "CHR ''='' \<notin> set key" and "take 1 (strip key) \<noteq> ''#''"
  shows "parse_line (key @ ''='' @ val) = Some (strip key, strip val)"
proof -
  let ?k = "dropWhile is_space key" and ?v = "rev (dropWhile is_space (rev val))"
  have line: "strip (key @ CHR ''='' # val) = ?k @ CHR ''='' # ?v"
    using not_space_eq by (rule strip_around)
  have nk: "CHR ''='' \<notin> set ?k"
    using assms(1) set_dropWhileD by fastforce
  then have all: "\<And>x. x \<in> set ?k \<Longrightarrow> x \<noteq> CHR ''=''"
    by auto
  have tw: "takeWhile (\<lambda>c. c \<noteq> CHR ''='') (?k @ CHR ''='' # ?v) = ?k"
    by (simp add: all)
  have dw: "dropWhile (\<lambda>c. c \<noteq> CHR ''='') (?k @ CHR ''='' # ?v) = CHR ''='' # ?v"
    by (simp add: all)
  have hd: "hd (?k @ CHR ''='' # ?v) \<noteq> CHR ''#''"
  proof (cases ?k)
    case Nil
    show ?thesis by (simp add: Nil)
  next
    case (Cons x xs)
    then have "\<not> is_space x" by (metis hd_dropWhile list.sel(1) list.distinct(1))
    then have "strip key = x # rev (dropWhile is_space (rev xs))"
      using Cons strip_around [of x "[]" xs] by (simp add: strip_def)
    with assms(2) have "x \<noteq> CHR ''#''" by auto
    with Cons show ?thesis by simp
  qed
  show ?thesis
    using hd by (simp add: parse_line_def line tw dw strip_lstrip strip_rstrip Let_def)
qed

lemma parse_line_skipped:
  "strip raw = [] \<or> take 1 (strip raw) = ''#'' \<Longrightarrow> parse_line raw = None"
  by (cases "strip raw") (auto simp: parse_line_def Let_def)

lemma load_lines_skip:
  "parse_line raw = None \<Longrightarrow> load_lines (pre @ raw # rest) env = load_lines (pre @ rest) env"
  by (induction pre arbitrary: env) (auto split: option.splits result.splits)

lemma load_lines_lookup:
  "load_lines ls env = Return env' \<Longrightarrow>
   env' k = (case env k of Some v \<Rightarrow> Some v | None \<Rightarrow> map_of (List.map_filter parse_line ls) k)"
proof (induction ls arbitrary: env)
  case Nil
  then show ?case by (simp split: option.splits)
next
  case (Cons raw rest)
  show ?case
  proof (cases "parse_line raw")
    case None
    with Cons show ?thesis by (simp split: option.splits)
  next
    case (Some kv)
    obtain key val where kv: "kv = (key, val)" by (cases kv)
    from Cons.prems Some kv obtain env1
      where sd: "setdefault env key val = Return env1"
        and rest: "load_lines rest env1 = Return env'"
      by (auto split: result.splits)
    from sd have env1: "env1 = (if env key \<noteq> None then env else env(key \<mapsto> val))"
      by (auto simp: setdefault_def split: if_splits)
    show ?thesis
      using Cons.IH [OF rest] Some kv env1
      by (auto split: option.splits)
  qed
qed

text \<open>
  C8. A line \<open>KEY=VALUE\<close> is read as the key and the value, both stripped. A blank line
  and a line that starts with \<open>#\<close> are skipped: the file loads as it does without them.
  After a load that does not raise, a variable that was set before keeps its value, and
  any other key has the value of the first line of the file that sets it.
\<close>

theorem load_env_first_occurrence_wins:
  "(CHR ''='' \<notin> set key \<and> take 1 (strip key) \<noteq> ''#'' \<longrightarrow>
      parse_line (key @ ''='' @ val) = Some (strip key, strip val))
   \<and> (strip raw = [] \<or> take 1 (strip raw) = ''#'' \<longrightarrow>
      parse_line raw = None
      \<and> load_env (Some (pre @ raw # rest)) env = load_env (Some (pre @ rest)) env)
   \<and> (load_env dotenv env = Return env' \<longrightarrow>
      env' k = (case env k of
                  Some v \<Rightarrow> Some v
                | None \<Rightarrow> map_of (List.map_filter parse_line
                           (case dotenv of None \<Rightarrow> [] | Some ls \<Rightarrow> ls)) k))"
proof (intro conjI impI)
  assume "CHR ''='' \<notin> set key \<and> take 1 (strip key) \<noteq> ''#''"
  then show "parse_line (key @ ''='' @ val) = Some (strip key, strip val)"
    using parse_line_key_value [of key val] by simp
next
  assume a: "strip raw = [] \<or> take 1 (strip raw) = ''#''"
  then show "parse_line raw = None" by (rule parse_line_skipped)
  then show "load_env (Some (pre @ raw # rest)) env = load_env (Some (pre @ rest)) env"
    by (simp add: load_env_def load_lines_skip)
next
  assume "load_env dotenv env = Return env'"
  then show "env' k = (case env k of
                  Some v \<Rightarrow> Some v
                | None \<Rightarrow> map_of (List.map_filter parse_line
                           (case dotenv of None \<Rightarrow> [] | Some ls \<Rightarrow> ls)) k)"
    by (cases dotenv) (auto simp: load_env_def load_lines_lookup split: option.splits)
qed

text \<open>
  A file of four lines, loaded into an environment where \<open>B\<close> is set: \<open>B\<close> keeps its
  value, \<open>A\<close> gets that of its first line, the comment is skipped.
\<close>

theorem load_env_first_occurrence_wins_witness:
  "parse_line '' B = 2 '' = Some (''B'', ''2'')
   \<and> load_env (Some [''A=1'', ''# A=0'', '' B = 2 '', ''A=3'']) [''B'' \<mapsto> ''0'']
       = load_env (Some [''A=1'', '' B = 2 '', ''A=3'']) [''B'' \<mapsto> ''0'']
   \<and> load_env (Some [''A=1'', ''# A=0'', '' B = 2 '', ''A=3'']) [''B'' \<mapsto> ''0'']
       = Return [''B'' \<mapsto> ''0'', ''A'' \<mapsto> ''1'']
   \<and> [''B'' \<mapsto> ''0'', ''A'' \<mapsto> ''1''] ''A''
       = map_of (List.map_filter parse_line [''A=1'', ''# A=0'', '' B = 2 '', ''A=3'']) ''A''
   \<and> [''B'' \<mapsto> ''0'', ''A'' \<mapsto> ''1''] ''B'' = Some ''0''"
proof -
  let ?f = "[''A=1'', ''# A=0'', '' B = 2 '', ''A=3'']"
  let ?env = "[''B'' \<mapsto> ''0'']"
  let ?env' = "[''B'' \<mapsto> ''0'', ''A'' \<mapsto> ''1'']"
  have h1: "CHR ''='' \<notin> set '' B '' \<and> take 1 (strip '' B '') \<noteq> ''#''"
    by (simp add: strip_def is_space_def)
  have h2: "strip ''# A=0'' = [] \<or> take 1 (strip ''# A=0'') = ''#''"
    by (simp add: strip_def is_space_def)
  have h3: "load_env (Some ?f) ?env = Return ?env'"
    by (simp add: load_env_def parse_line_def setdefault_def strip_def is_space_def)
  note p = load_env_first_occurrence_wins [where key = "'' B ''" and val = "'' 2 ''",
      THEN conjunct1, rule_format, OF h1]
  note q = load_env_first_occurrence_wins [where raw = "''# A=0''" and pre = "[''A=1'']"
      and rest = "['' B = 2 '', ''A=3'']" and env = ?env,
      THEN conjunct2, THEN conjunct1, rule_format, OF h2]
  note r = load_env_first_occurrence_wins [where dotenv = "Some ?f" and env = ?env
      and env' = ?env', THEN conjunct2, THEN conjunct2, rule_format, OF h3]
  from p q h3 r [of "''A''"] r [of "''B''"] show ?thesis
    by (simp add: strip_def is_space_def)
qed

section \<open>The \<open>list\<close> action\<close>

lemma print_records_calls: "calls (snd (print_records recs s)) = calls s"
  by (induction recs arbitrary: s) simp_all

text \<open>
  C9. For the \<open>list\<close> action \<open>main\<close> does the same whatever \<open>--type\<close> is. With a domain
  \<open>d\<close>, the requests it makes are those of \<open>list_records\<close> called without a record type,
  whose listing query carries no \<open>fieldType\<close>: only the subdomain, when given, filters it.
\<close>

theorem main_list_ignores_type:
  assumes "arg_action a = A_list"
  shows "main net dns env (a\<lparr>arg_type := t\<rparr>) s = main net dns env a s
    \<and> (\<forall>d. (case arg_domain a of None \<Rightarrow> DEFAULT_DOMAIN env | Some d \<Rightarrow> Some d) = Some d
           \<and> d \<noteq> [] \<longrightarrow>
         calls (snd (main net dns env a s))
           = calls (snd (list_records net env d None (arg_subdomain a) s)))
    \<and> list_path d None (arg_subdomain a)
        = ''/domain/zone/'' @ d @ ''/record''
            @ (if truthy (arg_subdomain a) then ''?subDomain='' @ the (arg_subdomain a) else [])"
proof (intro conjI allI impI)
  show "main net dns env (a\<lparr>arg_type := t\<rparr>) s = main net dns env a s"
    using assms by (simp add: main_def Let_def)
next
  fix d
  assume d: "(case arg_domain a of None \<Rightarrow> DEFAULT_DOMAIN env | Some d \<Rightarrow> Some d) = Some d
      \<and> d \<noteq> []"
  obtain r s0 where l: "list_records net env d None (arg_subdomain a) s = (r, s0)"
    by (cases "list_records net env d None (arg_subdomain a) s")
  show "calls (snd (main net dns env a s))
      = calls (snd (list_records net env d None (arg_subdomain a) s))"
    using assms d l
    by (cases r) (simp_all add: main_def Let_def bind_def print_records_calls)
next
  show "list_path d None (arg_subdomain a)
        = ''/domain/zone/'' @ d @ ''/record''
            @ (if truthy (arg_subdomain a) then ''?subDomain='' @ the (arg_subdomain a) else [])"
    by (simp add: list_path_def Let_def)
qed

text \<open>\<open>list --type A\<close> and \<open>list\<close> on the same zone.\<close>

theorem main_list_ignores_type_witness:
  "main scripted (\<lambda>_. Raise GaiError) credentials
      \<lparr>arg_action = A_list, arg_subdomain = None, arg_domain = Some ''example.com'',
       arg_ip = None, arg_type = Some ''A'', arg_ttl = None\<rparr>
      (start [time_reply, reply_ids [1], time_reply, reply_record record_1])
    = main scripted (\<lambda>_. Raise GaiError) credentials
      \<lparr>arg_action = A_list, arg_subdomain = None, arg_domain = Some ''example.com'',
       arg_ip = None, arg_type = None, arg_ttl = None\<rparr>
      (start [time_reply, reply_ids [1], time_reply, reply_record record_1])
   \<and> list_path ''example.com'' None None = ''/domain/zone/example.com/record''"
proof -
  let ?a = "\<lparr>arg_action = A_list, arg_subdomain = None,
       arg_domain = Some ''example.com'', arg_ip = None, arg_type = None, arg_ttl = None\<rparr>"
  have h: "arg_action ?a = A_list" by simp
  from main_list_ignores_type [where net = scripted and dns = "\<lambda>_. Raise GaiError"
      and env = credentials and t = "Some ''A''" and d = "''example.com''"
      and s = "start [time_reply, reply_ids [1], time_reply, reply_record record_1]", OF h]
  show ?thesis by simp
qed

section \<open>The mutating requests of \<open>add_record\<close>\<close>

lemma extends_refl [simp]: "extends s s"
  by (simp add: extends_def)

lemma extends_stdout [simp]: "extends s (t\<lparr>stdout := l\<rparr>) = extends s t"
  by (simp add: extends_def)

lemma mutations_stdout [simp]: "mutations s (t\<lparr>stdout := l\<rparr>) = mutations s t"
  by (simp add: mutations_def new_calls_def)

lemma mutations_stdout' [simp]: "mutations (s\<lparr>stdout := l\<rparr>) t = mutations s t"
  by (simp add: mutations_def new_calls_def)

lemma extends_stdout' [simp]: "extends (s\<lparr>stdout := l\<rparr>) t = extends s t"
  by (simp add: extends_def)

lemma mutations_refl [simp]: "mutations s s = []"
  by (simp add: mutations_def new_calls_def)

lemma extendsI: "calls t = calls s @ ex \<Longrightarrow> extends s t"
  by (simp add: extends_def)

lemma extendsD: "extends s t \<Longrightarrow> calls t = calls s @ new_calls s t"
  by (metis append_take_drop_id extends_def new_calls_def)

lemma extends_trans: "extends s t \<Longrightarrow> extends t u \<Longrightarrow> extends s u"
  by (metis append.assoc extendsD extendsI)

lemma mutations_trans:
  assumes "extends s t" and "extends t u"
  shows "mutations s u = mutations s t @ mutations t u"
proof -
  define e where "e = new_calls s t"
  define f where "f = new_calls t u"
  have t: "calls t = calls s @ e"
    using assms(1) by (simp add: e_def extendsD)
  have "calls u = calls t @ f"
    using assms(2) by (simp add: f_def extendsD)
  with t have "calls u = calls s @ (e @ f)" by simp
  then have "new_calls s u = e @ f" by (rule new_calls_append)
  then show ?thesis by (simp add: mutations_def e_def f_def)
qed

lemma ovh_call_mutations:
  assumes "ovh_call net env method path body s = (Return r, t)"
  shows "extends s t"
    and "mutations s t =
      (if method = ''GET'' then [] else [(method, OVH_ENDPOINT @ path, Some (status_code r))])"
proof -
  from ovh_call_Return [OF assms] obtain ak sk ck tr w
    where t: "t = s\<lparr>server := w, calls := calls s @ [(time_request, Some tr),
           (signed_request ak sk ck method path body (resp_text tr), Some r)]\<rparr>"
    by blast
  show "extends s t" using t by (simp add: extends_def)
  show "mutations s t =
      (if method = ''GET'' then [] else [(method, OVH_ENDPOINT @ path, Some (status_code r))])"
    using t
    by (simp add: mutations_def new_calls_def is_mutating_def brief_def time_request_def
        signed_request_def api_request_def)
qed

lemma list_records_mutations:
  assumes "list_records net env domain record_type subdomain s = (res, t)"
  shows "extends s t" and "mutations s t = []"
proof -
  from list_records_calls [OF assms] obtain ex
    where ex: "calls t = calls s @ ex" "filter is_mutating ex = []" by blast
  show "extends s t" using ex(1) by (rule extendsI)
  show "mutations s t = []" using ex by (simp add: mutations_def new_calls_def)
qed

lemma refresh_zone_mutations:
  assumes "refresh_zone net env domain s = (Return b, t)"
  shows "extends s t"
    and "\<exists>st. mutations s t = [(''POST'', OVH_ENDPOINT @ refresh_path domain, Some st)]"
proof -
  from assms obtain r u
    where c: "ovh_call net env ''POST'' (refresh_path domain) [] s = (Return r, u)"
      and t: "extends u t" "mutations u t = []" "calls t = calls u"
    by (auto simp: refresh_zone_def bind_eq_Return split: if_splits)
  note m = ovh_call_mutations [OF c]
  show "extends s t" using m(1) t(1) by (rule extends_trans)
  show "\<exists>st. mutations s t = [(''POST'', OVH_ENDPOINT @ refresh_path domain, Some st)]"
    using mutations_trans [OF m(1) t(1)] m(2) t(2) by simp
qed

lemma delete_loop_skip:
  "\<forall>r\<in>set pre. subDomain r \<noteq> subdomain \<Longrightarrow>
   delete_loop net env domain subdomain (pre @ rest) deleted
     = delete_loop net env domain subdomain rest deleted"
  by (induction pre) simp_all

lemma delete_loop_none:
  "\<forall>r\<in>set recs. subDomain r \<noteq> subdomain \<Longrightarrow>
   delete_loop net env domain subdomain recs deleted = return deleted"
  using delete_loop_skip [of recs subdomain net env domain "[]" deleted] by simp

lemma delete_loop_one:
  assumes "filter (\<lambda>r. subDomain r = subdomain) records = [listed]"
    and "delete_loop net env domain subdomain records False s = (Return d, t)"
  shows "extends s t"
    and "\<exists>dst. mutations s t
           = [(''DELETE'', OVH_ENDPOINT @ record_path domain (rec_id listed), Some dst)]
         \<and> d = (dst \<in> {200, 204})"
proof -
  from assms(1) obtain pre post
    where records: "records = pre @ listed # post"
      and pre: "\<forall>r\<in>set pre. subDomain r \<noteq> subdomain"
      and listed: "subDomain listed = subdomain"
      and post: "filter (\<lambda>r. subDomain r = subdomain) post = []"
    by (auto simp: filter_eq_Cons_iff)
  from post have post': "\<forall>r\<in>set post. subDomain r \<noteq> subdomain"
    by (simp add: filter_empty_conv)
  from assms(2) obtain r u
    where c: "ovh_call net env ''DELETE'' (record_path domain (rec_id listed)) [] s
                = (Return r, u)"
      and t: "extends u t" "mutations u t = []" "d = (status_code r \<in> {200, 204})"
    by (auto simp: records delete_loop_skip [OF pre] listed delete_loop_none [OF post']
        bind_eq_Return split: if_splits)
  note m = ovh_call_mutations [OF c]
  show "extends s t" using m(1) t(1) by (rule extends_trans)
  show "\<exists>dst. mutations s t
           = [(''DELETE'', OVH_ENDPOINT @ record_path domain (rec_id listed), Some dst)]
         \<and> d = (dst \<in> {200, 204})"
    using mutations_trans [OF m(1) t(1)] m(2) t(2,3) by simp
qed

lemma delete_record_one:
  assumes "list_records net env domain (Some record_type) (Some subdomain) s
             = (Return records, u)"
    and "filter (\<lambda>r. subDomain r = subdomain) records = [listed]"
    and "delete_record net env domain subdomain record_type s = (Return d, t)"
  shows "extends s t"
    and "\<exists>dst rst. mutations s t
           = (''DELETE'', OVH_ENDPOINT @ record_path domain (rec_id listed), Some dst)
             # (if dst \<in> {200, 204}
                then [(''POST'', OVH_ENDPOINT @ refresh_path domain, Some rst)] else [])"
proof -
  note l = list_records_mutations [OF assms(1)]
  from assms(2) have ne: "records \<noteq> []" by auto
  from assms(3) obtain d' v
    where dl: "delete_loop net env domain subdomain records False u = (Return d', v)"
      and k: "(if d' then \<exists>b. refresh_zone net env domain v = (Return b, t) else t = v)"
    using ne
    by (auto simp: delete_record_def bind_def assms(1) split: result.splits prod.splits if_splits)
  note m = delete_loop_one [OF assms(2) dl]
  from m(2) obtain dst
    where dst: "mutations u v
        = [(''DELETE'', OVH_ENDPOINT @ record_path domain (rec_id listed), Some dst)]"
      and d': "d' = (dst \<in> {200, 204})"
    by blast
  have uv: "extends s v" using l(1) m(1) by (rule extends_trans)
  have sv: "mutations s v
        = [(''DELETE'', OVH_ENDPOINT @ record_path domain (rec_id listed), Some dst)]"
    using mutations_trans [OF l(1) m(1)] l(2) dst by simp
  show "extends s t"
  proof (cases d')
    case True
    with k obtain b where "refresh_zone net env domain v = (Return b, t)" by auto
    from refresh_zone_mutations(1) [OF this] uv show ?thesis
      using extends_trans by blast
  next
    case False
    with k uv show ?thesis by simp
  qed
  show "\<exists>dst rst. mutations s t
           = (''DELETE'', OVH_ENDPOINT @ record_path domain (rec_id listed), Some dst)
             # (if dst \<in> {200, 204}
                then [(''POST'', OVH_ENDPOINT @ refresh_path domain, Some rst)] else [])"
  proof (cases d')
    case True
    with k obtain b where r: "refresh_zone net env domain v = (Return b, t)" by auto
    from refresh_zone_mutations [OF r] obtain rst
      where "extends v t"
        and "mutations v t = [(''POST'', OVH_ENDPOINT @ refresh_path domain, Some rst)]"
      by blast
    with mutations_trans [OF uv, of t] sv True d' show ?thesis by auto
  next
    case False
    with k sv d' show ?thesis by auto
  qed
qed

lemma add_loop_skip:
  "\<forall>r\<in>set pre. \<not> (subDomain r = subdomain \<and> fieldType r = record_type) \<Longrightarrow>
   add_loop net env domain subdomain target record_type (pre @ rest)
     = add_loop net env domain subdomain target record_type rest"
  by (induction pre) auto

lemma add_loop_none:
  "\<forall>r\<in>set recs. \<not> (subDomain r = subdomain \<and> fieldType r = record_type) \<Longrightarrow>
   add_loop net env domain subdomain target record_type recs = return False"
  using add_loop_skip [of recs subdomain record_type net env domain target "[]"] by simp

text \<open>
  C1, as the code has it. Exactly one listed record matches (subdomain, type) and its
  target differs; the listing that \<open>delete_record\<close> makes again returns exactly one record
  of that subdomain; no request raises. Then the mutating requests of \<open>add_record\<close> are,
  in this order: one DELETE of that record; a refresh when the DELETE was answered with
  200 or 204; one POST that creates the record; a refresh when the create was answered
  with 200 or 201, which is also when \<open>add_record\<close> returns \<open>True\<close>. When both succeed there
  are two refresh requests.
\<close>

theorem add_record_replaces_target:
  assumes "list_records net env domain (Some record_type) (Some subdomain) s
             = (Return existing, s')"
    and "filter (\<lambda>r. subDomain r = subdomain \<and> fieldType r = record_type) existing = [old]"
    and "rec_target old \<noteq> target"
    and "list_records net env domain (Some record_type) (Some subdomain)
           (s'\<lparr>stdout := stdout s'
                 @ [''Record exists with different target: '' @ rec_target old,
                    ''Updating to: '' @ target]\<rparr>)
             = (Return records, s'')"
    and "filter (\<lambda>r. subDomain r = subdomain) records = [listed]"
    and "add_record net env domain subdomain target record_type ttl s = (Return b, t)"
  shows "\<exists>dst rst cst rst'.
      mutations s t
        = (''DELETE'', OVH_ENDPOINT @ record_path domain (rec_id listed), Some dst)
          # (if dst \<in> {200, 204}
             then [(''POST'', OVH_ENDPOINT @ refresh_path domain, Some rst)] else [])
          @ (''POST'', OVH_ENDPOINT @ create_path domain, Some cst)
          # (if cst \<in> {200, 201}
             then [(''POST'', OVH_ENDPOINT @ refresh_path domain, Some rst')] else [])
    \<and> b = (cst \<in> {200, 201})"
proof -
  let ?s2 = "s'\<lparr>stdout := stdout s'
                 @ [''Record exists with different target: '' @ rec_target old,
                    ''Updating to: '' @ target]\<rparr>"
  from assms(2) obtain pre post
    where existing: "existing = pre @ old # post"
      and pre: "\<forall>r\<in>set pre. \<not> (subDomain r = subdomain \<and> fieldType r = record_type)"
      and old: "subDomain old = subdomain" "fieldType old = record_type"
      and post: "filter (\<lambda>r. subDomain r = subdomain \<and> fieldType r = record_type) post = []"
    by (auto simp: filter_eq_Cons_iff)
  from post
  have post': "\<forall>r\<in>set post. \<not> (subDomain r = subdomain \<and> fieldType r = record_type)"
    by (simp add: filter_empty_conv)
  have loop: "add_loop net env domain subdomain target record_type existing s'
      = bind (delete_record net env domain subdomain record_type) (\<lambda>_. return False) ?s2"
    using assms(3) old
    by (simp add: existing add_loop_skip [OF pre] add_loop_none [OF post'])
  from assms(6) obtain d v r w
    where del: "delete_record net env domain subdomain record_type ?s2 = (Return d, v)"
      and c: "ovh_call net env ''POST'' (create_path domain)
                (record_body record_type subdomain target ttl) v = (Return r, w)"
      and k: "if status_code r \<in> {200, 201}
              then b \<and> (\<exists>x. refresh_zone net env domain
                    (w\<lparr>stdout := stdout w @ [''Added '' @ record_type @ '' record: ''
                       @ subdomain @ ''.'' @ domain @ '' -> '' @ target]\<rparr>) = (Return x, t))
              else \<not> b \<and> calls t = calls w"
    by (auto simp: add_record_def bind_def assms(1) loop
        split: result.splits prod.splits if_splits)
  note l = list_records_mutations [OF assms(1)]
  note dm = delete_record_one [OF assms(4,5) del]
  note cm = ovh_call_mutations [OF c]
  from dm(2) obtain dst rst
    where dst: "mutations ?s2 v
           = (''DELETE'', OVH_ENDPOINT @ record_path domain (rec_id listed), Some dst)
             # (if dst \<in> {200, 204}
                then [(''POST'', OVH_ENDPOINT @ refresh_path domain, Some rst)] else [])"
    by blast
  have sv: "extends s v" using l(1) dm(1) extends_trans by fastforce
  have sw: "extends s w" using sv cm(1) by (rule extends_trans)
  have msv: "mutations s v
           = (''DELETE'', OVH_ENDPOINT @ record_path domain (rec_id listed), Some dst)
             # (if dst \<in> {200, 204}
                then [(''POST'', OVH_ENDPOINT @ refresh_path domain, Some rst)] else [])"
    using mutations_trans [of s s' v] l dm(1) dst by simp
  have msw: "mutations s w = mutations s v
      @ [(''POST'', OVH_ENDPOINT @ create_path domain, Some (status_code r))]"
    using mutations_trans [OF sv cm(1)] cm(2) by simp
  show ?thesis
  proof (cases "status_code r \<in> {200, 201}")
    case True
    with k obtain x where b: b
      and rz: "refresh_zone net env domain
                    (w\<lparr>stdout := stdout w @ [''Added '' @ record_type @ '' record: ''
                       @ subdomain @ ''.'' @ domain @ '' -> '' @ target]\<rparr>) = (Return x, t)"
      by auto
    from refresh_zone_mutations [OF rz] obtain rst'
      where wt: "extends w t"
        and mt: "mutations w t = [(''POST'', OVH_ENDPOINT @ refresh_path domain, Some rst')]"
      by auto
    have "mutations s t = mutations s w @ mutations w t"
      using sw wt by (rule mutations_trans)
    with msw msv mt True b show ?thesis by auto
  next
    case False
    with k have nb: "\<not> b" and "calls t = calls w" by auto
    then have "mutations s t = mutations s w"
      by (simp add: mutations_def new_calls_def)
    with msw msv False nb show ?thesis by auto
  qed
qed

lemma update_run:
  "\<exists>t. update_call = (Return True, t)
     \<and> mutations (start update_script) t
         = [(''DELETE'', ''https://eu.api.ovh.com/1.0/domain/zone/example.com/record/1'',
             Some 200),
            (''POST'', ''https://eu.api.ovh.com/1.0/domain/zone/example.com/refresh'',
             Some 200),
            (''POST'', ''https://eu.api.ovh.com/1.0/domain/zone/example.com/record'',
             Some 200),
            (''POST'', ''https://eu.api.ovh.com/1.0/domain/zone/example.com/refresh'',
             Some 200)]
     \<and> length (filter is_delete (new_calls (start update_script) t)) = 1
     \<and> length (filter (is_create ''example.com'') (new_calls (start update_script) t)) = 1
     \<and> length (filter (is_refresh ''example.com'') (new_calls (start update_script) t)) = 2"
  by (simp add: update_call_def eval_defs update_script_def is_delete_def is_create_def
      is_refresh_def)

lemma update_listing:
  "\<exists>u. list_records scripted credentials ''example.com'' (Some ''A'') (Some ''www'')
         (start update_script) = (Return [record_1], u)
     \<and> server u = drop 4 update_script"
  by (simp add: run_defs update_script_def)

text \<open>The zone holds \<open>record_1\<close>, and \<open>www\<close> is added with another target.\<close>

theorem add_record_replaces_target_witness:
  "fst update_call = Return True
   \<and> mutations (start update_script) (snd update_call)
       = [(''DELETE'', ''https://eu.api.ovh.com/1.0/domain/zone/example.com/record/1'',
           Some 200),
          (''POST'', ''https://eu.api.ovh.com/1.0/domain/zone/example.com/refresh'',
           Some 200),
          (''POST'', ''https://eu.api.ovh.com/1.0/domain/zone/example.com/record'',
           Some 200),
          (''POST'', ''https://eu.api.ovh.com/1.0/domain/zone/example.com/refresh'',
           Some 200)]"
proof -
  let ?s = "start update_script :: response option list world"
  let ?l = "list_records scripted credentials ''example.com'' (Some ''A'') (Some ''www'')"
  from update_listing obtain u
    where h1: "?l ?s = (Return [record_1], u)" and u: "server u = drop 4 update_script"
    by blast
  let ?u = "u\<lparr>stdout := stdout u
      @ [''Record exists with different target: '' @ rec_target record_1,
         ''Updating to: '' @ ''2.2.2.2'']\<rparr>"
  have "\<exists>v. ?l ?u = (Return [record_1], v)"
    by (simp add: run_defs u update_script_def)
  then obtain v where h4: "?l ?u = (Return [record_1], v)" ..
  have h2: "filter (\<lambda>r. subDomain r = ''www'' \<and> fieldType r = ''A'') [record_1] = [record_1]"
    by (simp add: record_1_def)
  have h3: "rec_target record_1 \<noteq> ''2.2.2.2''"
    by (simp add: record_1_def)
  have h5: "filter (\<lambda>r. subDomain r = ''www'') [record_1] = [record_1]"
    by (simp add: record_1_def)
  from update_run obtain t
    where h6: "add_record scripted credentials ''example.com'' ''www'' ''2.2.2.2'' ''A'' 3600 ?s
        = (Return True, t)"
      and m: "mutations ?s t
         = [(''DELETE'', ''https://eu.api.ovh.com/1.0/domain/zone/example.com/record/1'',
             Some 200),
            (''POST'', ''https://eu.api.ovh.com/1.0/domain/zone/example.com/refresh'',
             Some 200),
            (''POST'', ''https://eu.api.ovh.com/1.0/domain/zone/example.com/record'',
             Some 200),
            (''POST'', ''https://eu.api.ovh.com/1.0/domain/zone/example.com/refresh'',
             Some 200)]"
    unfolding update_call_def by blast
  from add_record_replaces_target [OF h1 h2 h3 h4 h5 h6]
  obtain dst rst cst rst' where "True = (cst \<in> {200, 201})"
    by blast
  with h6 m show ?thesis
    by (simp add: update_call_def)
qed

text \<open>
  C1 as the specification words it does not hold. The zone holds one \<open>A\<close> record of \<open>www\<close>
  with another target and every request succeeds: there is one DELETE and one create, but
  two refresh requests, one after the deletion and one after the create.
\<close>

theorem add_record_refresh_counterexample:
  "fst (list_records scripted credentials ''example.com'' (Some ''A'') (Some ''www'')
          (start update_script)) = Return [record_1]
   \<and> filter (\<lambda>r. subDomain r = ''www'' \<and> fieldType r = ''A'') [record_1] = [record_1]
   \<and> rec_target record_1 \<noteq> ''2.2.2.2''
   \<and> fst update_call = Return True
   \<and> length (filter is_delete (new_calls (start update_script) (snd update_call))) = 1
   \<and> length (filter (is_create ''example.com'')
        (new_calls (start update_script) (snd update_call))) = 1
   \<and> length (filter (is_refresh ''example.com'')
        (new_calls (start update_script) (snd update_call))) = 2"
proof -
  from update_listing obtain u
    where l: "list_records scripted credentials ''example.com'' (Some ''A'') (Some ''www'')
         (start update_script) = (Return [record_1], u)"
    by blast
  from update_run obtain t where t: "update_call = (Return True, t)"
    and n: "length (filter is_delete (new_calls (start update_script) t)) = 1"
      "length (filter (is_create ''example.com'') (new_calls (start update_script) t)) = 1"
      "length (filter (is_refresh ''example.com'') (new_calls (start update_script) t)) = 2"
    by blast
  have "rec_target record_1 \<noteq> ''2.2.2.2''"
    and "filter (\<lambda>r. subDomain r = ''www'' \<and> fieldType r = ''A'') [record_1] = [record_1]"
    by (simp_all add: record_1_def)
  then show ?thesis
    unfolding t l using n by simp
qed

section \<open>Calling \<open>add_record\<close> twice\<close>

text \<open>
  The path that makes a repeated \<open>add\<close> do nothing: when the first listed record that
  matches (subdomain, type) has the wanted target, \<open>add_record\<close> reports that the record
  exists, returns \<open>True\<close> and sends nothing but the GET requests of the listing.
\<close>

lemma add_loop_found:
  assumes "find (\<lambda>r. subDomain r = subdomain \<and> fieldType r = record_type) existing = Some rec"
    and "rec_target rec = target"
  shows "add_loop net env domain subdomain target record_type existing s =
    (Return True,
     s\<lparr>stdout := stdout s
        @ [''Record already exists: '' @ subdomain @ ''.'' @ domain @ '' -> '' @ target]\<rparr>)"
  using assms by (induction existing) (auto split: if_splits)

lemma add_record_already_exists:
  assumes "list_records net env domain (Some record_type) (Some subdomain) s
             = (Return existing, s')"
    and "find (\<lambda>r. subDomain r = subdomain \<and> fieldType r = record_type) existing = Some rec"
    and "rec_target rec = target"
  shows "add_record net env domain subdomain target record_type ttl s =
      (Return True,
       s'\<lparr>stdout := stdout s'
          @ [''Record already exists: '' @ subdomain @ ''.'' @ domain @ '' -> '' @ target]\<rparr>)"
    and "mutations s s' = []"
proof -
  show "add_record net env domain subdomain target record_type ttl s =
      (Return True,
       s'\<lparr>stdout := stdout s'
          @ [''Record already exists: '' @ subdomain @ ''.'' @ domain @ '' -> '' @ target]\<rparr>)"
    by (simp add: add_record_def bind_def assms(1) add_loop_found [OF assms(2,3)])
  show "mutations s s' = []"
    using assms(1) by (rule list_records_mutations)
qed

lemma first_call_run:
  "\<exists>t. first_call = (Return True, t)
     \<and> server t = drop 18 twice_script
     \<and> last (stdout t) = ''Record already exists: www.example.com -> 2.2.2.2''
     \<and> mutations (start twice_script) t
         = [(''DELETE'', ''https://eu.api.ovh.com/1.0/domain/zone/example.com/record/1'',
             Some 200),
            (''DELETE'', ''https://eu.api.ovh.com/1.0/domain/zone/example.com/record/2'',
             Some 200),
            (''POST'', ''https://eu.api.ovh.com/1.0/domain/zone/example.com/refresh'',
             Some 200)]"
  by (simp add: first_call_def eval_defs twice_script_def)

lemma second_call_run:
  assumes "server t = drop 18 twice_script"
  shows "\<exists>u. add_record scripted credentials ''example.com'' ''www'' ''2.2.2.2'' ''A'' 3600 t
        = (Return True, u)
     \<and> mutations t u
         = [(''POST'', ''https://eu.api.ovh.com/1.0/domain/zone/example.com/record'',
             Some 200),
            (''POST'', ''https://eu.api.ovh.com/1.0/domain/zone/example.com/refresh'',
             Some 200)]
     \<and> new_lines t u
         = [''Added A record: www.example.com -> 2.2.2.2'', ''Zone example.com refreshed'']"
  by (simp add: eval_defs assms twice_script_def)

text \<open>
  C2 fails on a zone that holds two \<open>A\<close> records of \<open>www\<close>, with the targets \<open>1.1.1.1\<close> and
  \<open>2.2.2.2\<close>, when \<open>www\<close> is added twice with the target \<open>2.2.2.2\<close>. The first call meets the
  record with the other target first and calls \<open>delete_record\<close>, which deletes both
  records; its loop then goes on over the list it fetched before, finds the record with
  the wanted target there, reports that it already exists and returns \<open>True\<close>. The second
  call lists nothing, so it creates the record and refreshes the zone: two mutating
  requests, and no report that the record exists.
\<close>

theorem add_record_twice_creates:
  "fst first_call = Return True
   \<and> last (stdout (snd first_call)) = ''Record already exists: www.example.com -> 2.2.2.2''
   \<and> mutations (start twice_script) (snd first_call)
       = [(''DELETE'', ''https://eu.api.ovh.com/1.0/domain/zone/example.com/record/1'',
           Some 200),
          (''DELETE'', ''https://eu.api.ovh.com/1.0/domain/zone/example.com/record/2'',
           Some 200),
          (''POST'', ''https://eu.api.ovh.com/1.0/domain/zone/example.com/refresh'',
           Some 200)]
   \<and> fst second_call = Return True
   \<and> mutations (snd first_call) (snd second_call)
       = [(''POST'', ''https://eu.api.ovh.com/1.0/domain/zone/example.com/record'', Some 200),
          (''POST'', ''https://eu.api.ovh.com/1.0/domain/zone/example.com/refresh'',
           Some 200)]
   \<and> new_lines (snd first_call) (snd second_call)
       = [''Added A record: www.example.com -> 2.2.2.2'', ''Zone example.com refreshed'']"
proof -
  from first_call_run obtain t
    where t: "first_call = (Return True, t)" "server t = drop 18 twice_script"
      "last (stdout t) = ''Record already exists: www.example.com -> 2.2.2.2''"
      "mutations (start twice_script) t
         = [(''DELETE'', ''https://eu.api.ovh.com/1.0/domain/zone/example.com/record/1'',
             Some 200),
            (''DELETE'', ''https://eu.api.ovh.com/1.0/domain/zone/example.com/record/2'',
             Some 200),
            (''POST'', ''https://eu.api.ovh.com/1.0/domain/zone/example.com/refresh'',
             Some 200)]"
    by blast
  from second_call_run [OF t(2)] obtain u
    where u: "second_call = (Return True, u)"
      "mutations t u
         = [(''POST'', ''https://eu.api.ovh.com/1.0/domain/zone/example.com/record'',
             Some 200),
            (''POST'', ''https://eu.api.ovh.com/1.0/domain/zone/example.com/refresh'',
             Some 200)]"
      "new_lines t u
         = [''Added A record: www.example.com -> 2.2.2.2'', ''Zone example.com refreshed'']"
    unfolding second_call_def t(1) by auto
  show ?thesis
    by (simp add: t u)
qed

end
